theory Spec2Isabelle
  imports Main "HOL-Library.Finite_Map" "HOL-Library.Signed_Division"
begin

section \<open>Data model of loggly.go\<close>

text \<open>
  Go strings and byte slices are sequences of bytes; an Isabelle \<open>char\<close> is one byte.
\<close>

type_synonym bytes = string

text \<open>
  A value of type \<open>interface{}\<close> stored in a record. Strings are kept apart because
  \<open>Send\<close> asserts the type of \<open>partnerID\<close>; \<open>Other\<close> stands for every remaining Go
  value (floats, slices, nested maps, channels, funcs ...), told apart by a tag.
\<close>

datatype val = Str string | Int64 int | Bool bool | Nil | Other nat

type_synonym msg = "(string, val) fmap"

datatype error = Err string

datatype 'a outcome = Panics | Returns 'a

text \<open>\<open>type Level int\<close> with the constants of the \<open>iota\<close> block (lines 23-34).\<close>

definition DEBUG :: int where "DEBUG = 0"
definition INFO :: int where "INFO = 1"
definition NOTICE :: int where "NOTICE = 2"
definition WARNING :: int where "WARNING = 3"
definition ERROR :: int where "ERROR = 4"
definition CRITICAL :: int where "CRITICAL = 5"
definition ALERT :: int where "ALERT = 6"
definition EMERGENCY :: int where "EMERGENCY = 7"

definition Version :: string where "Version = ''0.4.3''"

definition api :: string where "api = ''https://logs-01.loggly.com/bulk/{token}''"

definition nl :: bytes where "nl = [CHR 0x0A]"

text \<open>
  The client struct (lines 37-62). \<open>Writer\<close> is \<open>None\<close> for a nil writer and otherwise
  holds the bytes written to it so far. The embedded mutex has no field of its own: the
  sequential operations below are the critical sections taken one at a time, and the
  interleaving model further down splits \<open>Flush\<close> where it releases the lock.
\<close>

record Client =
  Writer :: "bytes option"
  Level :: int
  BufferSize :: int
  FlushInterval :: int
  Endpoint :: string
  Token :: string
  Defaults :: msg
  buffer :: "(string, bytes list) fmap"
  tags :: "string list"
  MinimalLog :: bool

record request =
  Method :: string
  URL :: string
  Header :: "(string \<times> string) list"
  Body :: bytes

record response =
  StatusCode :: int
  RespBody :: bytes

text \<open>
  What the code asks of its collaborators, taken as parameters: \<open>json.Marshal\<close>,
  \<open>time.Now().UnixNano()\<close>, the failure of \<open>http.NewRequest\<close> on a method and URL,
  \<open>http.Client.Do\<close> and \<open>os.Hostname\<close>.
\<close>

record world =
  Marshal :: "msg \<Rightarrow> error + bytes"
  UnixNano :: int
  NewRequest_err :: "string \<Rightarrow> string \<Rightarrow> error option"
  Do :: "request \<Rightarrow> error + response"
  Hostname :: "error + string"

section \<open>Go built-ins and library functions used by the code\<close>

text \<open>\<open>len(m)\<close> of a map: the number of its keys.\<close>

definition map_len :: "('k, 'v) fmap \<Rightarrow> int" where
  "map_len m = int (fcard (fmdom m))"

text \<open>\<open>m[k]\<close> of a map of slices: the nil (empty) slice when the key is missing.\<close>

definition index :: "(string, bytes list) fmap \<Rightarrow> string \<Rightarrow> bytes list" where
  "index m k = (case fmlookup m k of None \<Rightarrow> [] | Some q \<Rightarrow> q)"

text \<open>\<open>bytes.Join\<close> and \<open>strings.Join\<close>.\<close>

fun Join :: "string list \<Rightarrow> string \<Rightarrow> string" where
  "Join [] sep = []"
| "Join [x] sep = x"
| "Join (x # y # ys) sep = x @ sep @ Join (y # ys) sep"

text \<open>\<open>strings.Replace(s, old, new, 1)\<close>: the first occurrence of \<open>old\<close> is replaced.\<close>

fun Replace1 :: "string \<Rightarrow> string \<Rightarrow> string \<Rightarrow> string" where
  "Replace1 [] old new = (if old = [] then new else [])"
| "Replace1 (x # xs) old new =
     (if take (length old) (x # xs) = old then new @ drop (length old) (x # xs)
      else x # Replace1 xs old new)"

text \<open>
  The conversion \<open>string(n)\<close> of an integer \<open>n\<close>: the UTF-8 encoding of the code point
  \<open>n\<close>, and of U+FFFD when \<open>n\<close> is no valid code point.
\<close>

definition string_of_rune :: "int \<Rightarrow> string" where
  "string_of_rune r =
     (if r < 0 \<or> 0x10FFFF < r \<or> (0xD800 \<le> r \<and> r \<le> 0xDFFF)
        then [char_of (0xEF :: int), char_of (0xBF :: int), char_of (0xBD :: int)]
      else if r < 0x80 then [char_of r]
      else if r < 0x800 then [char_of (0xC0 + r div 0x40), char_of (0x80 + r mod 0x40)]
      else if r < 0x10000
        then [char_of (0xE0 + r div 0x1000), char_of (0x80 + (r div 0x40) mod 0x40),
              char_of (0x80 + r mod 0x40)]
      else [char_of (0xF0 + r div 0x40000), char_of (0x80 + (r div 0x1000) mod 0x40),
            char_of (0x80 + (r div 0x40) mod 0x40), char_of (0x80 + r mod 0x40)])"

text \<open>
  The decimal numeral of a length, as the specification words the \<open>Content-Length\<close>
  value (what \<open>strconv.Itoa\<close> computes); the code does not call it.
\<close>

fun decimal :: "nat \<Rightarrow> string" where
  "decimal n =
     (if n < 10 then [char_of (48 + n)] else decimal (n div 10) @ [char_of (48 + n mod 10)])"

declare decimal.simps [simp del]

text \<open>\<open>http.NewRequest\<close>: an error, or a request with no header yet.\<close>

definition NewRequest :: "world \<Rightarrow> string \<Rightarrow> string \<Rightarrow> bytes \<Rightarrow> error + request" where
  "NewRequest w m u b =
     (case NewRequest_err w m u of
        Some e \<Rightarrow> Inl e
      | None \<Rightarrow> Inr \<lparr>Method = m, URL = u, Header = [], Body = b\<rparr>)"

text \<open>\<open>req.Header.Add\<close> and the values stored under a header name, in the order added.\<close>

definition Header_Add :: "string \<Rightarrow> string \<Rightarrow> request \<Rightarrow> request" where
  "Header_Add k v req = req\<lparr>Header := Header req @ [(k, v)]\<rparr>"

definition Header_Values :: "request \<Rightarrow> string \<Rightarrow> string list" where
  "Header_Values req k = map snd (filter (\<lambda>p. fst p = k) (Header req))"

section \<open>The client\<close>

text \<open>\<open>merge\<close> (lines 313-320): every key of every map of \<open>others\<close> is written into \<open>a\<close>.\<close>

definition merge :: "msg \<Rightarrow> msg list \<Rightarrow> msg" where
  "merge a others = foldl (\<lambda>a m. a ++\<^sub>f m) a others"

text \<open>\<open>Tag\<close> (lines 286-294) and \<open>tagsList\<close> (lines 296-302).\<close>

definition Tag :: "Client \<Rightarrow> string list \<Rightarrow> Client" where
  "Tag c tgs = c\<lparr>tags := foldl (\<lambda>ts t. ts @ [t]) (tags c) tgs\<rparr>"

definition tagsList :: "Client \<Rightarrow> string" where
  "tagsList c = Join (tags c) '',''"

text \<open>
  \<open>New\<close> (lines 64-90). The flusher goroutine it starts (\<open>start\<close>, lines 304-311) calls
  \<open>Flush\<close> after every interval; its calls are \<open>Flush\<close> steps of the models below.
\<close>

definition New :: "world \<Rightarrow> string \<Rightarrow> int \<Rightarrow> bool \<Rightarrow> string list \<Rightarrow> Client" where
  "New w token bufferSize minLog tgs =
     (let defaults = (case Hostname w of
                        Inr host \<Rightarrow> fmupd ''hostname'' (Str host) fmempty
                      | Inl e \<Rightarrow> fmempty);
          c = \<lparr>Writer = None, Level = INFO, BufferSize = bufferSize,
               FlushInterval = 5 * 1000000000,
               Endpoint = Replace1 api ''{token}'' token, Token = token,
               Defaults = defaults, buffer = fmempty, tags = [], MinimalLog = minLog\<rparr>
      in Tag c tgs)"

text \<open>
  The second half of \<open>Send\<close> (lines 112-132), once the group key \<open>tagbuffer\<close> is
  known: the record is encoded, and on success mirrored to the writer and appended to its
  group. The result is the returned error, the client, and whether \<open>go c.Flush()\<close> was
  started.
\<close>

definition Send_enqueue ::
    "world \<Rightarrow> Client \<Rightarrow> msg \<Rightarrow> string \<Rightarrow> (error option \<times> Client \<times> bool) outcome" where
  "Send_enqueue w c msg tagbuffer =
     (case Marshal w msg of
        Inl err \<Rightarrow> Returns (Some err, c, False)
      | Inr json \<Rightarrow>
          let c1 = c\<lparr>Writer := map_option (\<lambda>out. out @ json @ [CHR 0x0A]) (Writer c)\<rparr>;
              c2 = c1\<lparr>buffer := fmupd tagbuffer (index (buffer c1) tagbuffer @ [json])
                                   (buffer c1)\<rparr>
          in Returns (None, c2, map_len (buffer c2) \<ge> BufferSize c2))"

text \<open>
  \<open>Send\<close> (lines 92-133). The record is a Go map and is changed in place, so the first
  component of the result is the caller's record after the call: it is the record handed
  to \<open>Marshal\<close>. The second component is the panic of the type assertion \<open>val.(string)\<close>
  of line 108, or the return. The record and the client's buffer are maps that have been
  made (by a map literal, by \<open>make\<close> in \<open>New\<close>): a nil record in non-minimal mode
  panics at the assignment of line 101 and a nil buffer at the assignment of line 124
  (line 144 in \<open>Write\<close>), and neither is a value of this model.
\<close>

definition Send :: "world \<Rightarrow> Client \<Rightarrow> msg \<Rightarrow> msg \<times> (error option \<times> Client \<times> bool) outcome" where
  "Send w c msg0 =
     (let msg =
        (if MinimalLog c
           then fmdrop ''line'' (fmdrop ''hostname'' (fmdrop ''func'' (fmdrop ''filename'' msg0)))
         else merge
                (if ''timestamp'' |\<in>| fmdom msg0 then msg0
                 else fmupd ''timestamp'' (Int64 (UnixNano w sdiv 1000000)) msg0)
                [Defaults c])
      in (msg,
          case fmlookup msg ''partnerID'' of
            Some (Str s) \<Rightarrow> Send_enqueue w c msg s
          | Some v \<Rightarrow> Panics
          | None \<Rightarrow> Send_enqueue w c msg ''notag''))"

text \<open>\<open>Write\<close> (lines 135-153): the count, the error, the client, and whether a flush was started.\<close>

definition Write :: "Client \<Rightarrow> bytes \<Rightarrow> int \<times> error option \<times> Client \<times> bool" where
  "Write c b =
     (let c1 = c\<lparr>Writer := map_option (\<lambda>out. out @ b) (Writer c)\<rparr>;
          c2 = c1\<lparr>buffer := fmupd ''notag'' (index (buffer c1) ''notag'' @ [b]) (buffer c1)\<rparr>
      in (int (length b), None, c2, map_len (buffer c2) \<ge> BufferSize c2))"

text \<open>The severity wrappers (lines 155-233).\<close>

definition Debug :: "world \<Rightarrow> Client \<Rightarrow> string \<Rightarrow> msg list \<Rightarrow> (error option \<times> Client \<times> bool) outcome" where
  "Debug w c t props =
     (if Level c > DEBUG then Returns (None, c, False)
      else snd (Send w c (merge (fmap_of_list [(''level'', Str ''debug''), (''component'', Str t)]) props)))"

definition Info :: "world \<Rightarrow> Client \<Rightarrow> string \<Rightarrow> msg list \<Rightarrow> (error option \<times> Client \<times> bool) outcome" where
  "Info w c t props =
     (if Level c > INFO then Returns (None, c, False)
      else snd (Send w c (merge (fmap_of_list [(''level'', Str ''info''), (''component'', Str t)]) props)))"

definition Notice :: "world \<Rightarrow> Client \<Rightarrow> string \<Rightarrow> msg list \<Rightarrow> (error option \<times> Client \<times> bool) outcome" where
  "Notice w c t props =
     (if Level c > NOTICE then Returns (None, c, False)
      else snd (Send w c (merge (fmap_of_list [(''level'', Str ''notice''), (''component'', Str t)]) props)))"

definition Warn :: "world \<Rightarrow> Client \<Rightarrow> string \<Rightarrow> msg list \<Rightarrow> (error option \<times> Client \<times> bool) outcome" where
  "Warn w c t props =
     (if Level c > WARNING then Returns (None, c, False)
      else snd (Send w c (merge (fmap_of_list [(''level'', Str ''warning''), (''component'', Str t)]) props)))"

definition Error :: "world \<Rightarrow> Client \<Rightarrow> string \<Rightarrow> msg list \<Rightarrow> (error option \<times> Client \<times> bool) outcome" where
  "Error w c t props =
     (if Level c > ERROR then Returns (None, c, False)
      else snd (Send w c (merge (fmap_of_list [(''level'', Str ''error''), (''component'', Str t)]) props)))"

definition Critical :: "world \<Rightarrow> Client \<Rightarrow> string \<Rightarrow> msg list \<Rightarrow> (error option \<times> Client \<times> bool) outcome" where
  "Critical w c t props =
     (if Level c > CRITICAL then Returns (None, c, False)
      else snd (Send w c (merge (fmap_of_list [(''level'', Str ''critical''), (''component'', Str t)]) props)))"

definition Alert :: "world \<Rightarrow> Client \<Rightarrow> string \<Rightarrow> msg list \<Rightarrow> (error option \<times> Client \<times> bool) outcome" where
  "Alert w c t props =
     (if Level c > ALERT then Returns (None, c, False)
      else snd (Send w c (merge (fmap_of_list [(''level'', Str ''alert''), (''component'', Str t)]) props)))"

definition Emergency :: "world \<Rightarrow> Client \<Rightarrow> string \<Rightarrow> msg list \<Rightarrow> (error option \<times> Client \<times> bool) outcome" where
  "Emergency w c t props =
     (if Level c > EMERGENCY then Returns (None, c, False)
      else snd (Send w c (merge (fmap_of_list [(''level'', Str ''emergency''), (''component'', Str t)]) props)))"

text \<open>
  The request built for group \<open>k\<close> once \<open>http.NewRequest\<close> has returned \<open>req\<close>
  (lines 258-265).
\<close>

definition add_headers :: "string \<Rightarrow> bytes \<Rightarrow> request \<Rightarrow> request" where
  "add_headers k body req =
     (let req1 = Header_Add ''User-Agent'' (''go-loggly (version: '' @ Version @ '')'') req;
          req2 = Header_Add ''Content-Type'' ''text/plain'' req1;
          req3 = Header_Add ''Content-Length'' (string_of_rune (int (length body))) req2
      in if k \<noteq> ''notag'' then Header_Add ''X-Loggly-Tag'' k req3 else req3)"

text \<open>
  \<open>Flush\<close> (lines 235-284), run with no other goroutine in between. The \<open>range\<close> over the
  map visits its keys in an order Go does not fix: the order is the parameter \<open>ks\<close>. The
  result is the returned error, the client, and the requests handed to \<open>client.Do\<close>, in
  order. In the branch for a status of 400 or more the code returns the variable \<open>err\<close>,
  which holds the nil that \<open>client.Do\<close> returned with the response.
\<close>

fun flush_keys :: "world \<Rightarrow> string list \<Rightarrow> Client \<Rightarrow> request list \<Rightarrow>
    error option \<times> Client \<times> request list" where
  "flush_keys w [] c sent = (None, c, sent)"
| "flush_keys w (k # ks) c sent =
     (if length (index (buffer c) k) = 0 then flush_keys w ks c sent
      else
        let body = Join (index (buffer c) k) nl;
            c' = c\<lparr>buffer := fmupd k [] (buffer c)\<rparr>
        in case NewRequest w ''POST'' (Endpoint c') body of
             Inl err \<Rightarrow> (Some err, c', sent)
           | Inr req0 \<Rightarrow>
               let req = add_headers k body req0 in
               (case Do w req of
                  Inl err \<Rightarrow> (Some err, c', sent @ [req])
                | Inr res \<Rightarrow>
                    let err = None in
                    if StatusCode res \<ge> 400 then (err, c', sent @ [req])
                    else flush_keys w ks c' (sent @ [req])))"

definition Flush :: "world \<Rightarrow> string list \<Rightarrow> Client \<Rightarrow> error option \<times> Client \<times> request list" where
  "Flush w ks c = flush_keys w ks c []"

text \<open>An order in which \<open>range c.buffer\<close> may visit the keys.\<close>

definition range_order :: "Client \<Rightarrow> string list \<Rightarrow> bool" where
  "range_order c ks \<longleftrightarrow> distinct ks \<and> fset_of_list ks = fmdom (buffer c)"

section \<open>Goroutines: producers and flushes interleaved\<close>

text \<open>
  \<open>Send\<close> and \<open>Write\<close> append while they hold the mutex (lines 117-124, 137-144).
  An iteration of \<open>Flush\<close> for a key \<open>k\<close> touches the shared map three times: the
  length test of line 238, made without the mutex; the join of lines 243-247, made while
  holding it; and the assignment \<open>c.buffer[k] = nil\<close> of line 248, made after
  \<open>c.Unlock()\<close>. Each is one step of the goroutine that runs it, and steps of other
  goroutines may come in between. The body joined by a goroutine is posted once its
  iteration has passed line 248.
\<close>

datatype flush_pc = Tested string | Joined string bytes

datatype step =
    Append string bytes
  | Flush_Test nat string
  | Flush_Join nat string
  | Flush_Clear nat string

record shared =
  queue :: "(string, bytes list) fmap"
  at :: "(nat, flush_pc) fmap"
  posted :: "bytes list"

fun exec :: "step \<Rightarrow> shared \<Rightarrow> shared option" where
  "exec (Append k b) s = Some (s\<lparr>queue := fmupd k (index (queue s) k @ [b]) (queue s)\<rparr>)"
| "exec (Flush_Test g k) s =
     (case fmlookup (at s) g of
        Some pc \<Rightarrow> None
      | None \<Rightarrow>
          if k |\<notin>| fmdom (queue s) then None
          else if length (index (queue s) k) = 0 then Some s
          else Some (s\<lparr>at := fmupd g (Tested k) (at s)\<rparr>))"
| "exec (Flush_Join g k) s =
     (case fmlookup (at s) g of
        Some (Tested k') \<Rightarrow>
          if k' = k then Some (s\<lparr>at := fmupd g (Joined k (Join (index (queue s) k) nl)) (at s)\<rparr>)
          else None
      | _ \<Rightarrow> None)"
| "exec (Flush_Clear g k) s =
     (case fmlookup (at s) g of
        Some (Joined k' body) \<Rightarrow>
          if k' = k
            then Some (s\<lparr>queue := fmupd k [] (queue s), at := fmdrop g (at s),
                         posted := posted s @ [body]\<rparr>)
          else None
      | _ \<Rightarrow> None)"

fun execs :: "step list \<Rightarrow> shared \<Rightarrow> shared option" where
  "execs [] s = Some s"
| "execs (x # xs) s = (case exec x s of None \<Rightarrow> None | Some s' \<Rightarrow> execs xs s')"

section \<open>The lifetime of a client\<close>

text \<open>
  The calls a program can make on a client, each with the world it meets. The buffer is
  a private field, so these are the only ways it changes. A panic of \<open>Send\<close> happens
  before the client is touched and leaves it as it was.
\<close>

datatype call =
    Call_Send msg
  | Call_Write bytes
  | Call_Flush "string list"
  | Call_Tag "string list"
  | Call_Debug string "msg list"
  | Call_Info string "msg list"
  | Call_Notice string "msg list"
  | Call_Warn string "msg list"
  | Call_Error string "msg list"
  | Call_Critical string "msg list"
  | Call_Alert string "msg list"
  | Call_Emergency string "msg list"

definition after :: "Client \<Rightarrow> (error option \<times> Client \<times> bool) outcome \<Rightarrow> Client" where
  "after c r = (case r of Panics \<Rightarrow> c | Returns (e, c', t) \<Rightarrow> c')"

fun perform :: "world \<Rightarrow> call \<Rightarrow> Client \<Rightarrow> Client" where
  "perform w (Call_Send m) c = after c (snd (Send w c m))"
| "perform w (Call_Write b) c = (case Write c b of (n, e, c', t) \<Rightarrow> c')"
| "perform w (Call_Flush ks) c = (case Flush w ks c of (e, c', sent) \<Rightarrow> c')"
| "perform w (Call_Tag tgs) c = Tag c tgs"
| "perform w (Call_Debug t props) c = after c (Debug w c t props)"
| "perform w (Call_Info t props) c = after c (Info w c t props)"
| "perform w (Call_Notice t props) c = after c (Notice w c t props)"
| "perform w (Call_Warn t props) c = after c (Warn w c t props)"
| "perform w (Call_Error t props) c = after c (Error w c t props)"
| "perform w (Call_Critical t props) c = after c (Critical w c t props)"
| "perform w (Call_Alert t props) c = after c (Alert w c t props)"
| "perform w (Call_Emergency t props) c = after c (Emergency w c t props)"

fun run :: "(world \<times> call) list \<Rightarrow> Client \<Rightarrow> Client" where
  "run [] c = c"
| "run ((w, x) # xs) c = run xs (perform w x c)"

section \<open>Example worlds and clients\<close>

text \<open>
  A world whose encoder rejects a record holding a value it cannot represent under the
  key \<open>ch\<close> and whose endpoint answers every request with the given status.
\<close>

definition toy_Marshal :: "msg \<Rightarrow> error + bytes" where
  "toy_Marshal m =
     (case fmlookup m ''ch'' of
        Some (Other n) \<Rightarrow> Inl (Err ''json: unsupported type'')
      | _ \<Rightarrow> Inr (''{'' @ (case fmlookup m ''component'' of Some (Str s) \<Rightarrow> s | _ \<Rightarrow> []) @ ''}''))"

definition toy_world :: "int \<Rightarrow> world" where
  "toy_world status =
     \<lparr>Marshal = toy_Marshal, UnixNano = 1700000000123456789,
      NewRequest_err = (\<lambda>m u. None),
      Do = (\<lambda>req. Inr \<lparr>StatusCode = status, RespBody = []\<rparr>),
      Hostname = Inr ''host1''\<rparr>"

definition toy_client :: "int \<Rightarrow> bool \<Rightarrow> Client" where
  "toy_client bufferSize minLog = New (toy_world 200) ''tok'' bufferSize minLog []"

section \<open>Facts about \<open>Send\<close>\<close>

lemmas toy_defs = toy_client_def toy_world_def toy_Marshal_def New_def Tag_def Let_def
  Send_def Send_enqueue_def merge_def index_def map_len_def INFO_def
  fcard_finsert_if fcard_fempty

lemma merge_single: "merge a [d] = a ++\<^sub>f d"
  by (simp add: merge_def)

lemma Send_record:
  "fst (Send w c msg0) =
     (if MinimalLog c
        then fmdrop ''line'' (fmdrop ''hostname'' (fmdrop ''func'' (fmdrop ''filename'' msg0)))
      else (if ''timestamp'' |\<in>| fmdom msg0 then msg0
            else fmupd ''timestamp'' (Int64 (UnixNano w sdiv 1000000)) msg0) ++\<^sub>f Defaults c)"
  by (simp add: Send_def Let_def merge_single)

lemma Send_enqueue_Returns:
  assumes "Send_enqueue w c m g = Returns (None, c', t)"
  shows "\<exists>json. Marshal w m = Inr json \<and> t = (BufferSize c \<le> map_len (buffer c')) \<and>
          c' = c\<lparr>Writer := map_option (\<lambda>out. out @ json @ [CHR 0x0A]) (Writer c),
                 buffer := fmupd g (index (buffer c) g @ [json]) (buffer c)\<rparr>"
  using assms by (cases "Marshal w m") (auto simp: Send_enqueue_def Let_def)

lemma Send_enqueue_not_Panics: "Send_enqueue w c m g \<noteq> Panics"
  by (cases "Marshal w m") (simp_all add: Send_enqueue_def Let_def)

lemma Send_pair:
  assumes "Send w c msg0 = (m, r)"
  shows "r = (case fmlookup m ''partnerID'' of
        Some (Str s) \<Rightarrow> Send_enqueue w c m s
      | Some v \<Rightarrow> Panics
      | None \<Rightarrow> Send_enqueue w c m ''notag'')"
  using assms unfolding Send_def Let_def by (elim Pair_inject) (hypsubst, rule refl)

lemma Send_result:
  "snd (Send w c msg0) =
     (case fmlookup (fst (Send w c msg0)) ''partnerID'' of
        Some (Str s) \<Rightarrow> Send_enqueue w c (fst (Send w c msg0)) s
      | Some v \<Rightarrow> Panics
      | None \<Rightarrow> Send_enqueue w c (fst (Send w c msg0)) ''notag'')"
  by (rule Send_pair) simp

lemma Send_Panics:
  "snd (Send w c msg0) = Panics \<longleftrightarrow>
     (\<exists>v. fmlookup (fst (Send w c msg0)) ''partnerID'' = Some v \<and> (\<forall>s. v \<noteq> Str s))"
proof (cases "fmlookup (fst (Send w c msg0)) ''partnerID''")
  case None
  then show ?thesis by (simp add: Send_result Send_enqueue_not_Panics)
next
  case (Some v)
  then show ?thesis by (cases v) (simp_all add: Send_result Send_enqueue_not_Panics)
qed

lemma Send_Returns:
  assumes "snd (Send w c msg0) = Returns (None, c', t)"
  shows "\<exists>g json.
      (fmlookup (fst (Send w c msg0)) ''partnerID'' = Some (Str g) \<or>
       fmlookup (fst (Send w c msg0)) ''partnerID'' = None \<and> g = ''notag'') \<and>
      Marshal w (fst (Send w c msg0)) = Inr json \<and>
      t = (BufferSize c \<le> map_len (buffer c')) \<and>
      c' = c\<lparr>Writer := map_option (\<lambda>out. out @ json @ [CHR 0x0A]) (Writer c),
             buffer := fmupd g (index (buffer c) g @ [json]) (buffer c)\<rparr>"
proof (cases "fmlookup (fst (Send w c msg0)) ''partnerID''")
  case None
  with assms have "Send_enqueue w c (fst (Send w c msg0)) ''notag'' = Returns (None, c', t)"
    by (simp add: Send_result)
  from Send_enqueue_Returns [OF this] None show ?thesis by blast
next
  case (Some v)
  show ?thesis
  proof (cases v)
    case (Str s)
    with Some assms have "Send_enqueue w c (fst (Send w c msg0)) s = Returns (None, c', t)"
      by (simp add: Send_result)
    from Send_enqueue_Returns [OF this] Some Str show ?thesis by blast
  qed (use Some assms in \<open>simp_all add: Send_result\<close>)
qed

lemma Send_partnerID:
  assumes "MinimalLog c \<or> ''partnerID'' |\<notin>| fmdom (Defaults c)"
  shows "fmlookup (fst (Send w c msg0)) ''partnerID'' = fmlookup msg0 ''partnerID''"
  using assms by (auto simp: Send_record)

lemma New_fields:
  "BufferSize (New w token n ml tgs) = n" "buffer (New w token n ml tgs) = fmempty"
  "MinimalLog (New w token n ml tgs) = ml"
  "''partnerID'' |\<notin>| fmdom (Defaults (New w token n ml tgs))"
  by (simp_all add: New_def Tag_def Let_def split: sum.splits)


section \<open>Facts about \<open>Flush\<close>\<close>

lemma index_nonempty_dom: "index b k \<noteq> [] \<Longrightarrow> k |\<in>| fmdom b"
  by (auto simp: index_def fmlookup_dom_iff split: option.splits)

lemma index_fmupd: "index (fmupd k q b) k' = (if k = k' then q else index b k')"
  by (simp add: index_def)

lemma fmdom_clear: "index b k \<noteq> [] \<Longrightarrow> fmdom (fmupd k [] b) = fmdom b"
  using index_nonempty_dom [of b k] by auto

lemma flush_keys_buffer:
  "flush_keys w ks c sent0 = (e, c', sent) \<Longrightarrow>
     fmdom (buffer c') = fmdom (buffer c) \<and> BufferSize c' = BufferSize c \<and>
     Endpoint c' = Endpoint c \<and>
     (\<forall>k. index (buffer c') k = [] \<or> index (buffer c') k = index (buffer c) k)"
proof (induction ks arbitrary: c sent0)
  case Nil
  then show ?case by simp
next
  case (Cons k ks)
  show ?case
  proof (cases "index (buffer c) k = []")
    case True
    with Cons.prems have "flush_keys w ks c sent0 = (e, c', sent)" by simp
    from Cons.IH [OF this] show ?thesis .
  next
    case False
    let ?c1 = "c\<lparr>buffer := fmupd k [] (buffer c)\<rparr>"
    have c1: "fmdom (buffer ?c1) = fmdom (buffer c)" "BufferSize ?c1 = BufferSize c"
      "Endpoint ?c1 = Endpoint c"
      "\<And>k'. index (buffer ?c1) k' = [] \<or> index (buffer ?c1) k' = index (buffer c) k'"
      using False fmdom_clear [of "buffer c" k] by (simp_all add: index_fmupd)
    have "c' = ?c1 \<or> (\<exists>s. flush_keys w ks ?c1 s = (e, c', sent))"
      using Cons.prems False
      by (auto simp: Let_def split: sum.splits if_splits)
    then show ?thesis
    proof
      assume "c' = ?c1"
      with c1 show ?thesis by metis
    next
      assume "\<exists>s. flush_keys w ks ?c1 s = (e, c', sent)"
      then obtain s where "flush_keys w ks ?c1 s = (e, c', sent)" ..
      from Cons.IH [OF this] c1 show ?thesis by metis
    qed
  qed
qed

lemma add_headers_tag:
  "Header req0 = [] \<Longrightarrow>
   Header_Values (add_headers k body req0) ''X-Loggly-Tag'' = (if k = ''notag'' then [] else [k])"
  by (simp add: add_headers_def Header_Add_def Header_Values_def Let_def)

lemma add_headers_length:
  "Header req0 = [] \<Longrightarrow>
   Header_Values (add_headers k body req0) ''Content-Length'' = [string_of_rune (int (length body))]"
  by (simp add: add_headers_def Header_Add_def Header_Values_def Let_def)

lemma add_headers_Body: "Body (add_headers k body req0) = Body req0"
  by (simp add: add_headers_def Header_Add_def Let_def)

lemma NewRequest_Inr:
  "NewRequest w m u b = Inr req0 \<Longrightarrow> req0 = \<lparr>Method = m, URL = u, Header = [], Body = b\<rparr>"
  by (auto simp: NewRequest_def split: option.splits)

lemma flush_keys_sent:
  "flush_keys w ks c sent0 = (e, c', sent) \<Longrightarrow> distinct ks \<Longrightarrow>
     \<exists>new. sent = sent0 @ new \<and>
       (\<forall>req \<in> set new. \<exists>k \<in> set ks. index (buffer c) k \<noteq> [] \<and>
          req = add_headers k (Join (index (buffer c) k) nl)
                  \<lparr>Method = ''POST'', URL = Endpoint c, Header = [],
                   Body = Join (index (buffer c) k) nl\<rparr>)"
proof (induction ks arbitrary: c sent0)
  case Nil
  then show ?case by simp
next
  case (Cons k ks)
  let ?P = "\<lambda>c ks req. \<exists>k \<in> set ks. index (buffer c) k \<noteq> [] \<and>
          req = add_headers k (Join (index (buffer c) k) nl)
                  \<lparr>Method = ''POST'', URL = Endpoint c, Header = [],
                   Body = Join (index (buffer c) k) nl\<rparr>"
  show ?case
  proof (cases "index (buffer c) k = []")
    case True
    with Cons.prems have "flush_keys w ks c sent0 = (e, c', sent)" by simp
    from Cons.IH [OF this] Cons.prems(2) obtain new where
      "sent = sent0 @ new" "\<forall>req \<in> set new. ?P c ks req" by auto
    then show ?thesis by auto
  next
    case False
    let ?body = "Join (index (buffer c) k) nl"
    let ?c1 = "c\<lparr>buffer := fmupd k [] (buffer c)\<rparr>"
    let ?req = "add_headers k ?body
                  \<lparr>Method = ''POST'', URL = Endpoint c, Header = [], Body = ?body\<rparr>"
    have here: "?P c (k # ks) ?req" using False by simp
    have later: "?P c (k # ks) req" if "?P ?c1 ks req" for req
    proof -
      from that obtain k' where k': "k' \<in> set ks" "index (buffer ?c1) k' \<noteq> []"
        "req = add_headers k' (Join (index (buffer ?c1) k') nl)
                  \<lparr>Method = ''POST'', URL = Endpoint ?c1, Header = [],
                   Body = Join (index (buffer ?c1) k') nl\<rparr>" by blast
      from k'(1) Cons.prems(2) have "k \<noteq> k'" by auto
      then have "index (buffer ?c1) k' = index (buffer c) k'" by (simp add: index_fmupd)
      with k' show ?thesis by auto
    qed
    have "sent = sent0 \<or> sent = sent0 @ [?req] \<or> flush_keys w ks ?c1 (sent0 @ [?req]) = (e, c', sent)"
      using Cons.prems(1) False
      by (auto simp: Let_def split: sum.splits if_splits dest!: NewRequest_Inr)
    then consider "sent = sent0" | "sent = sent0 @ [?req]"
      | "flush_keys w ks ?c1 (sent0 @ [?req]) = (e, c', sent)" by blast
    then show ?thesis
    proof cases
      case 1
      then show ?thesis by simp
    next
      case 2
      with here show ?thesis by simp
    next
      case 3
      from Cons.IH [OF 3] Cons.prems(2) obtain new where
        new: "sent = (sent0 @ [?req]) @ new" "\<forall>req \<in> set new. ?P ?c1 ks req" by auto
      have "\<forall>req \<in> set (?req # new). ?P c (k # ks) req"
        using here later new(2) by (metis set_ConsD)
      with new(1) show ?thesis by (intro exI [of _ "?req # new"]) simp
    qed
  qed
qed

lemma flush_keys_complete:
  assumes new: "NewRequest_err w ''POST'' (Endpoint c) = None"
    and run: "flush_keys w ks c sent0 = (e, c', sent)"
    and dist: "distinct ks"
    and ok: "\<forall>req \<in> set sent. \<exists>res. Do w req = Inr res \<and> StatusCode res < 400"
  shows "sent = sent0 @ map (\<lambda>k. add_headers k (Join (index (buffer c) k) nl)
                    \<lparr>Method = ''POST'', URL = Endpoint c, Header = [],
                     Body = Join (index (buffer c) k) nl\<rparr>)
               (filter (\<lambda>k. index (buffer c) k \<noteq> []) ks)"
  using new run dist
proof (induction ks arbitrary: c sent0)
  case Nil
  then show ?case by simp
next
  case (Cons k ks)
  let ?mk = "\<lambda>c k. add_headers k (Join (index (buffer c) k) nl)
                    \<lparr>Method = ''POST'', URL = Endpoint c, Header = [],
                     Body = Join (index (buffer c) k) nl\<rparr>"
  show ?case
  proof (cases "index (buffer c) k = []")
    case True
    with Cons.prems have "flush_keys w ks c sent0 = (e, c', sent)" by simp
    from Cons.IH [OF Cons.prems(1) this] Cons.prems(3) True show ?thesis by simp
  next
    case False
    let ?c1 = "c\<lparr>buffer := fmupd k [] (buffer c)\<rparr>"
    have newreq: "NewRequest w ''POST'' (Endpoint c) (Join (index (buffer c) k) nl) =
        Inr \<lparr>Method = ''POST'', URL = Endpoint c, Header = [],
             Body = Join (index (buffer c) k) nl\<rparr>"
      using Cons.prems(1) by (simp add: NewRequest_def)
    have same: "index (fmupd k [] (buffer c)) k' = index (buffer c) k'" if "k' \<in> set ks" for k'
      using that Cons.prems(3) by (auto simp: index_fmupd)
    have maps: "map (?mk ?c1) (filter (\<lambda>k. index (buffer ?c1) k \<noteq> []) ks) =
          map (?mk c) (filter (\<lambda>k. index (buffer c) k \<noteq> []) ks)"
    proof -
      have "filter (\<lambda>k. index (buffer ?c1) k \<noteq> []) ks = filter (\<lambda>k. index (buffer c) k \<noteq> []) ks"
        by (rule filter_cong) (use same in auto)
      moreover have "map (?mk ?c1) (filter (\<lambda>k. index (buffer c) k \<noteq> []) ks) =
          map (?mk c) (filter (\<lambda>k. index (buffer c) k \<noteq> []) ks)"
        by (rule map_cong) (use same in auto)
      ultimately show ?thesis by simp
    qed
    show ?thesis
    proof (cases "Do w (?mk c k)")
      case (Inl err)
      with Cons.prems(2) False newreq have "sent = sent0 @ [?mk c k]"
        by (simp add: Let_def)
      with ok Inl show ?thesis by auto
    next
      case (Inr res)
      show ?thesis
      proof (cases "StatusCode res \<ge> 400")
        case True
        with Cons.prems(2) False newreq Inr have "sent = sent0 @ [?mk c k]"
          by (simp add: Let_def)
        with ok Inr True show ?thesis by auto
      next
        case low: False
        with Cons.prems(2) False newreq Inr
        have "flush_keys w ks ?c1 (sent0 @ [?mk c k]) = (e, c', sent)"
          by (simp add: Let_def)
        moreover have "NewRequest_err w ''POST'' (Endpoint ?c1) = None"
          using Cons.prems(1) by simp
        ultimately have "sent = (sent0 @ [?mk c k]) @
            map (?mk ?c1) (filter (\<lambda>k. index (buffer ?c1) k \<noteq> []) ks)"
          using Cons.prems(3) by (intro Cons.IH) simp_all
        then show ?thesis
          using False maps by simp
      qed
    qed
  qed
qed

lemma flush_keys_status:
  assumes "flush_keys w ks c sent0 = (e, c', sent)" and "distinct ks"
    and "req \<in> set sent" and "req \<notin> set sent0"
    and "Do w req = Inr res" and "StatusCode res \<ge> 400"
  shows "e = None \<and> (\<exists>k \<in> set ks. index (buffer c) k \<noteq> [] \<and>
      req = add_headers k (Join (index (buffer c) k) nl)
              \<lparr>Method = ''POST'', URL = Endpoint c, Header = [],
               Body = Join (index (buffer c) k) nl\<rparr> \<and>
      index (buffer c') k = [])"
  using assms(1-4)
proof (induction ks arbitrary: c sent0)
  case Nil
  then show ?case by simp
next
  case (Cons k ks)
  let ?mk = "\<lambda>c k. add_headers k (Join (index (buffer c) k) nl)
                    \<lparr>Method = ''POST'', URL = Endpoint c, Header = [],
                     Body = Join (index (buffer c) k) nl\<rparr>"
  show ?case
  proof (cases "index (buffer c) k = []")
    case True
    with Cons.prems have "flush_keys w ks c sent0 = (e, c', sent)" by simp
    from Cons.IH [OF this] Cons.prems show ?thesis by auto
  next
    case False
    let ?c1 = "c\<lparr>buffer := fmupd k [] (buffer c)\<rparr>"
    show ?thesis
    proof (cases "NewRequest w ''POST'' (Endpoint c) (Join (index (buffer c) k) nl)")
      case (Inl err)
      with Cons.prems(1) False have "sent = sent0" by (simp add: Let_def)
      with Cons.prems show ?thesis by simp
    next
      case (Inr req0)
      then have req0: "req0 = \<lparr>Method = ''POST'', URL = Endpoint c, Header = [],
             Body = Join (index (buffer c) k) nl\<rparr>"
        by (rule NewRequest_Inr)
      show ?thesis
      proof (cases "Do w (?mk c k)")
        case (Inl err)
        with Cons.prems(1) False Inr req0 have "sent = sent0 @ [?mk c k]"
          by (simp add: Let_def)
        with Cons.prems(3,4) have "req = ?mk c k" by simp
        with Inl assms(5) show ?thesis by simp
      next
        case res': (Inr res')
        show ?thesis
        proof (cases "StatusCode res' \<ge> 400")
          case True
          with Cons.prems(1) False Inr req0 res'
          have out: "sent = sent0 @ [?mk c k]" "e = None" "c' = ?c1"
            by (simp_all add: Let_def)
          with Cons.prems(3,4) have "req = ?mk c k" by simp
          with out False show ?thesis by (simp add: index_fmupd)
        next
          case low: False
          with Cons.prems(1) False Inr req0 res'
          have rest: "flush_keys w ks ?c1 (sent0 @ [?mk c k]) = (e, c', sent)"
            by (simp add: Let_def)
          have "req \<noteq> ?mk c k"
            using res' low assms(5,6) by auto
          with Cons.prems(4) have notin: "req \<notin> set (sent0 @ [?mk c k])" by simp
          from Cons.IH [OF rest _ Cons.prems(3) notin] Cons.prems(2)
          obtain k' where k': "e = None" "k' \<in> set ks" "index (buffer ?c1) k' \<noteq> []"
            "req = ?mk ?c1 k'" "index (buffer c') k' = []" by auto
          from k'(2) Cons.prems(2) have "k \<noteq> k'" by auto
          then have "index (buffer ?c1) k' = index (buffer c) k'" by (simp add: index_fmupd)
          with k' show ?thesis by auto
        qed
      qed
    qed
  qed
qed

text \<open>
  \<open>Flush\<close> returns an error only when \<open>http.NewRequest\<close> or \<open>client.Do\<close>
  returned it: the status of a response never produces one.
\<close>

lemma flush_keys_error_source:
  "flush_keys w ks c sent0 = (Some err, c', sent) \<Longrightarrow>
     (\<exists>m u. NewRequest_err w m u = Some err) \<or> (\<exists>req. Do w req = Inl err)"
proof (induction ks arbitrary: c sent0)
  case Nil
  then show ?case by simp
next
  case (Cons k ks)
  show ?case
  proof (cases "index (buffer c) k = []")
    case True
    with Cons.prems have "flush_keys w ks c sent0 = (Some err, c', sent)" by simp
    from Cons.IH [OF this] show ?thesis .
  next
    case False
    let ?body = "Join (index (buffer c) k) nl"
    let ?c1 = "c\<lparr>buffer := fmupd k [] (buffer c)\<rparr>"
    show ?thesis
    proof (cases "NewRequest w ''POST'' (Endpoint c) ?body")
      case (Inl e)
      with Cons.prems False have "e = err" by (simp add: Let_def)
      with Inl show ?thesis by (auto simp: NewRequest_def split: option.splits)
    next
      case (Inr req0)
      show ?thesis
      proof (cases "Do w (add_headers k ?body req0)")
        case (Inl e)
        with Cons.prems False Inr have "e = err" by (simp add: Let_def)
        with Inl show ?thesis by blast
      next
        case (Inr res)
        with Cons.prems False \<open>NewRequest w ''POST'' (Endpoint c) ?body = Inr req0\<close>
        have "flush_keys w ks ?c1 (sent0 @ [add_headers k ?body req0]) = (Some err, c', sent)"
          by (simp add: Let_def split: if_splits)
        from Cons.IH [OF this] show ?thesis .
      qed
    qed
  qed
qed

lemma Flush_error_source:
  "Flush w ks c = (Some err, c', sent) \<Longrightarrow>
     (\<exists>m u. NewRequest_err w m u = Some err) \<or> (\<exists>req. Do w req = Inl err)"
  unfolding Flush_def by (rule flush_keys_error_source)

section \<open>Facts about \<open>string(n)\<close> and decimal numerals\<close>

lemma decimal_unfold:
  "decimal n = (if n < 10 then [char_of (48 + n)] else decimal (n div 10) @ [char_of (48 + n mod 10)])"
  by (rule decimal.simps)

lemma digit_byte: "m < 10 \<Longrightarrow> (of_char (char_of (48 + m :: nat)) :: int) < 58"
proof -
  assume m: "m < 10"
  have "char_of (48 + m) = char_of (int (48 + m))"
    by (simp only: char_of_nat)
  then have "(of_char (char_of (48 + m)) :: int) = int (48 + m) mod 256"
    by (simp only: of_char_of)
  with m show ?thesis by simp
qed

lemma decimal_nonempty: "decimal n \<noteq> []"
  by (subst decimal_unfold) simp

lemma decimal_digits: "ch \<in> set (decimal n) \<Longrightarrow> (of_char ch :: int) < 58"
proof (induction n arbitrary: ch rule: decimal.induct)
  case (1 n)
  show ?case
  proof (cases "n < 10")
    case True
    with "1.prems" have "ch = char_of (48 + n)"
      by (subst (asm) decimal_unfold) simp
    with True digit_byte show ?thesis by simp
  next
    case False
    with "1.prems" have "ch \<in> set (decimal (n div 10)) \<or> ch = char_of (48 + n mod 10)"
      by (subst (asm) decimal_unfold) auto
    then show ?thesis
    proof
      assume "ch \<in> set (decimal (n div 10))"
      with False "1.IH" show ?thesis by blast
    next
      assume "ch = char_of (48 + n mod 10)"
      then show ?thesis using digit_byte [of "n mod 10"] by simp
    qed
  qed
qed

lemma decimal_long: "10 \<le> n \<Longrightarrow> 2 \<le> length (decimal n)"
proof -
  assume "10 \<le> n"
  then have "decimal n = decimal (n div 10) @ [char_of (48 + n mod 10)]"
    by (subst decimal_unfold) simp
  moreover have "1 \<le> length (decimal (n div 10))"
    using decimal_nonempty [of "n div 10"] by (cases "decimal (n div 10)") simp_all
  ultimately show ?thesis by simp
qed

lemma rune_high:
  assumes "128 \<le> r"
  shows "string_of_rune r \<noteq> [] \<and> 128 \<le> (of_char (hd (string_of_rune r)) :: int)"
proof -
  have a: "r < 0x800 \<Longrightarrow> (0xC0 + r div 0x40) mod 256 = 0xC0 + r div 0x40"
    using assms by (intro mod_pos_pos_trivial) auto
  have b: "r < 0x10000 \<Longrightarrow> (0xE0 + r div 0x1000) mod 256 = 0xE0 + r div 0x1000"
    using assms by (intro mod_pos_pos_trivial) auto
  have c: "r \<le> 0x10FFFF \<Longrightarrow> (0xF0 + r div 0x40000) mod 256 = 0xF0 + r div 0x40000"
    using assms by (intro mod_pos_pos_trivial) auto
  show ?thesis
    using assms a b c by (auto simp: string_of_rune_def)
qed

lemma rune_not_decimal: "string_of_rune (int n) \<noteq> decimal n"
proof (cases "128 \<le> n")
  case True
  then have "128 \<le> (of_char (hd (string_of_rune (int n))) :: int)"
    using rune_high [of "int n"] by simp
  moreover have "(of_char (hd (decimal n)) :: int) < 58"
    using decimal_nonempty [of n] by (intro decimal_digits [of _ n]) simp
  ultimately show ?thesis by auto
next
  case False
  then have one: "string_of_rune (int n) = [char_of n]"
    by (simp add: string_of_rune_def)
  show ?thesis
  proof (cases "n < 10")
    case True
    then have "decimal n = [char_of (48 + n)]"
      by (subst decimal_unfold) simp
    moreover have "n mod 256 \<noteq> (48 + n) mod 256"
      using True by simp
    ultimately show ?thesis by (simp add: one)
  next
    case False
    then have "2 \<le> length (decimal n)" by (intro decimal_long) simp
    moreover have "length (string_of_rune (int n)) = 1" by (simp add: one)
    ultimately have "length (string_of_rune (int n)) \<noteq> length (decimal n)" by linarith
    then show ?thesis by metis
  qed
qed

text \<open>
  Every request of a flush pass has the \<open>Content-Length\<close> value \<open>string(len(body))\<close>,
  which is never the decimal numeral of the length.
\<close>

lemma Flush_Content_Length:
  assumes "distinct ks" and "Flush w ks c = (e, c', sent)" and "req \<in> set sent"
  shows "Header_Values req ''Content-Length'' = [string_of_rune (int (length (Body req)))] \<and>
    Header_Values req ''Content-Length'' \<noteq> [decimal (length (Body req))]"
proof -
  from assms(2) have "flush_keys w ks c [] = (e, c', sent)" by (simp add: Flush_def)
  from flush_keys_sent [OF this assms(1)] assms(3) obtain k where
    req: "req = add_headers k (Join (index (buffer c) k) nl)
                  \<lparr>Method = ''POST'', URL = Endpoint c, Header = [],
                   Body = Join (index (buffer c) k) nl\<rparr>" by auto
  have "Body req = Join (index (buffer c) k) nl"
    by (simp add: req add_headers_Body)
  moreover have "Header_Values req ''Content-Length'' =
      [string_of_rune (int (length (Join (index (buffer c) k) nl)))]"
    unfolding req by (rule add_headers_length) simp
  ultimately show ?thesis
    using rune_not_decimal by simp
qed

section \<open>Facts about the interleaving model\<close>

text \<open>
  The three steps of one goroutine on a non-empty group, with no step of another goroutine
  in between, clear the queue and post its joined content, as one iteration of
  \<open>Flush\<close> does.
\<close>

lemma uninterrupted_iteration:
  assumes "index (queue s) k \<noteq> []" and "fmlookup (at s) g = None"
  shows "map_option queue (execs [Flush_Test g k, Flush_Join g k, Flush_Clear g k] s)
           = Some (fmupd k [] (queue s)) \<and>
         map_option posted (execs [Flush_Test g k, Flush_Join g k, Flush_Clear g k] s)
           = Some (posted s @ [Join (index (queue s) k) nl])"
  using assms index_nonempty_dom [of "queue s" k] by simp

lemma one_iteration_of_Flush:
  assumes "index (buffer c) k \<noteq> []" and "NewRequest_err w ''POST'' (Endpoint c) = None"
  shows "buffer (fst (snd (Flush w [k] c))) = fmupd k [] (buffer c) \<and>
         map Body (snd (snd (Flush w [k] c))) = [Join (index (buffer c) k) nl]"
  using assms
  by (auto simp: Flush_def NewRequest_def Let_def add_headers_Body split: sum.splits)

section \<open>Facts about the lifetime of a client\<close>

lemma Send_enqueue_keeps:
  assumes "Send_enqueue w c m g = Returns (e, c', t)"
  shows "fmdom (buffer c) |\<subseteq>| fmdom (buffer c') \<and> BufferSize c' = BufferSize c"
  using assms by (cases "Marshal w m") (auto simp: Send_enqueue_def Let_def)

lemma after_Send_enqueue:
  "fmdom (buffer c) |\<subseteq>| fmdom (buffer (after c (Send_enqueue w c m g))) \<and>
   BufferSize (after c (Send_enqueue w c m g)) = BufferSize c"
proof (cases "Send_enqueue w c m g")
  case Panics
  then show ?thesis by (simp add: after_def)
next
  case (Returns r)
  obtain e c' t where "r = (e, c', t)" by (cases r) auto
  with Returns Send_enqueue_keeps [of w c m g e c' t] show ?thesis by (simp add: after_def)
qed

lemma after_Send:
  "fmdom (buffer c) |\<subseteq>| fmdom (buffer (after c (snd (Send w c msg0)))) \<and>
   BufferSize (after c (snd (Send w c msg0))) = BufferSize c"
proof (cases "fmlookup (fst (Send w c msg0)) ''partnerID''")
  case None
  then show ?thesis using after_Send_enqueue by (simp add: Send_result)
next
  case (Some v)
  then show ?thesis using after_Send_enqueue
    by (cases v) (simp_all add: Send_result after_def)
qed

lemma after_noop: "after c (Returns (None, c, False)) = c"
  by (simp add: after_def)

lemma perform_keeps:
  "fmdom (buffer c) |\<subseteq>| fmdom (buffer (perform w x c)) \<and>
   BufferSize (perform w x c) = BufferSize c"
proof (cases x)
  case (Call_Send m)
  then show ?thesis using after_Send by simp
next
  case (Call_Write b)
  then show ?thesis by (auto simp: Write_def Let_def)
next
  case (Call_Flush ks)
  obtain e c' sent where "flush_keys w ks c [] = (e, c', sent)"
    by (cases "flush_keys w ks c []") auto
  with Call_Flush flush_keys_buffer [OF this] show ?thesis by (simp add: Flush_def)
next
  case (Call_Tag tgs)
  then show ?thesis by (simp add: Tag_def)
next
  case (Call_Debug t props)
  then show ?thesis using after_Send by (simp add: Debug_def after_noop)
next
  case (Call_Info t props)
  then show ?thesis using after_Send by (simp add: Info_def after_noop)
next
  case (Call_Notice t props)
  then show ?thesis using after_Send by (simp add: Notice_def after_noop)
next
  case (Call_Warn t props)
  then show ?thesis using after_Send by (simp add: Warn_def after_noop)
next
  case (Call_Error t props)
  then show ?thesis using after_Send by (simp add: Error_def after_noop)
next
  case (Call_Critical t props)
  then show ?thesis using after_Send by (simp add: Critical_def after_noop)
next
  case (Call_Alert t props)
  then show ?thesis using after_Send by (simp add: Alert_def after_noop)
next
  case (Call_Emergency t props)
  then show ?thesis using after_Send by (simp add: Emergency_def after_noop)
qed

lemma run_keeps:
  "fmdom (buffer c) |\<subseteq>| fmdom (buffer (run xs c)) \<and> BufferSize (run xs c) = BufferSize c"
proof (induction xs arbitrary: c)
  case Nil
  then show ?case by simp
next
  case (Cons a xs)
  obtain w x where a: "a = (w, x)" by (cases a) auto
  from Cons.IH [of "perform w x c"] perform_keeps [of c w x] show ?case
    unfolding a by (simp, blast)
qed

lemma map_len_mono: "fmdom a |\<subseteq>| fmdom b \<Longrightarrow> map_len a \<le> map_len b"
  by (simp add: map_len_def fcard_mono)

lemmas flush_defs = Flush_def NewRequest_def add_headers_def Header_Add_def Header_Values_def
  nl_def Version_def string_of_rune_def char_of_def range_order_def

lemma decimal_7: "decimal 7 = ''7''"
  by code_simp

section \<open>The automatic flush\<close>

text \<open>
  Claim C3. Whenever \<open>Send\<close> returns nil or \<open>Write\<close> returns, a blob has been
  appended to one group, and a flush has been started exactly when the number of distinct
  group keys of the buffer after the append (not the number of queued records) has reached
  \<open>BufferSize\<close>. In particular, on a new client with buffer size 2, a record with
  \<open>partnerID\<close> \<open>a\<close> starts no flush, a following record with \<open>partnerID\<close> \<open>b\<close>
  starts one with no call of \<open>Flush\<close> by the program, and a following second record
  for group \<open>a\<close> starts none.
\<close>

theorem flush_trigger_counts_groups:
  "(snd (Send w c msg0) = Returns (None, c', t) \<longrightarrow>
      t = (BufferSize c \<le> int (fcard (fmdom (buffer c')))) \<and>
      (\<exists>g json. buffer c' = fmupd g (index (buffer c) g @ [json]) (buffer c))) \<and>
   (Write c b = (n, e, c'', t') \<longrightarrow>
      t' = (BufferSize c \<le> int (fcard (fmdom (buffer c'')))) \<and>
      buffer c'' = fmupd ''notag'' (index (buffer c) ''notag'' @ [b]) (buffer c)) \<and>
   (fmlookup ma ''partnerID'' = Some (Str ''a'') \<longrightarrow>
    fmlookup mb ''partnerID'' = Some (Str ''b'') \<longrightarrow>
    fmlookup ma' ''partnerID'' = Some (Str ''a'') \<longrightarrow>
    snd (Send w1 (New w0 token 2 minLog tgs) ma) = Returns (None, c1, t1) \<longrightarrow>
      \<not> t1 \<and>
      (snd (Send w2 c1 mb) = Returns (None, c2, t2) \<longrightarrow> t2) \<and>
      (snd (Send w2 c1 ma') = Returns (None, c3, t3) \<longrightarrow> \<not> t3))"
proof (intro conjI impI)
  assume r: "snd (Send w c msg0) = Returns (None, c', t)"
  from Send_Returns [OF r] show "t = (BufferSize c \<le> int (fcard (fmdom (buffer c'))))"
    by (auto simp: map_len_def)
  from Send_Returns [OF r] obtain g json where
    "c' = c\<lparr>Writer := map_option (\<lambda>out. out @ json @ [CHR 0x0A]) (Writer c),
             buffer := fmupd g (index (buffer c) g @ [json]) (buffer c)\<rparr>"
    by blast
  then show "\<exists>g json. buffer c' = fmupd g (index (buffer c) g @ [json]) (buffer c)"
    by (intro exI [of _ g] exI [of _ json]) simp
next
  assume "Write c b = (n, e, c'', t')"
  then show "t' = (BufferSize c \<le> int (fcard (fmdom (buffer c''))))"
    and "buffer c'' = fmupd ''notag'' (index (buffer c) ''notag'' @ [b]) (buffer c)"
    by (auto simp: Write_def Let_def map_len_def)
next
  let ?c0 = "New w0 token 2 minLog tgs"
  assume a: "fmlookup ma ''partnerID'' = Some (Str ''a'')"
    and b: "fmlookup mb ''partnerID'' = Some (Str ''b'')"
    and a': "fmlookup ma' ''partnerID'' = Some (Str ''a'')"
    and r1: "snd (Send w1 ?c0 ma) = Returns (None, c1, t1)"
  have pa: "fmlookup (fst (Send w1 ?c0 ma)) ''partnerID'' = Some (Str ''a'')"
    using Send_partnerID [of ?c0 w1 ma] a by (simp add: New_fields)
  from Send_Returns [OF r1] pa obtain json where
    c1: "c1 = ?c0\<lparr>Writer := map_option (\<lambda>out. out @ json @ [CHR 0x0A]) (Writer ?c0),
             buffer := fmupd ''a'' (index (buffer ?c0) ''a'' @ [json]) (buffer ?c0)\<rparr>"
    and t1: "t1 = (BufferSize ?c0 \<le> map_len (buffer c1))"
    by auto
  have dom1: "fmdom (buffer c1) = {|''a''|}" "BufferSize c1 = 2"
    "MinimalLog c1 \<or> ''partnerID'' |\<notin>| fmdom (Defaults c1)"
    using New_fields [of w0 token 2 minLog tgs] by (simp_all add: c1)
  show "\<not> t1"
    using t1 dom1 by (simp add: map_len_def New_fields fcard_finsert_if fcard_fempty)
  {
    assume r2: "snd (Send w2 c1 mb) = Returns (None, c2, t2)"
    have pb: "fmlookup (fst (Send w2 c1 mb)) ''partnerID'' = Some (Str ''b'')"
      using Send_partnerID [OF dom1(3), of w2 mb] b by simp
    from Send_Returns [OF r2] pb obtain json2 where
      "buffer c2 = fmupd ''b'' (index (buffer c1) ''b'' @ [json2]) (buffer c1)"
      and "t2 = (BufferSize c1 \<le> map_len (buffer c2))"
      by auto
    then show t2
      using dom1 by (simp add: map_len_def fcard_finsert_if fcard_fempty)
  }
  {
    assume r3: "snd (Send w2 c1 ma') = Returns (None, c3, t3)"
    have pa': "fmlookup (fst (Send w2 c1 ma')) ''partnerID'' = Some (Str ''a'')"
      using Send_partnerID [OF dom1(3), of w2 ma'] a' by simp
    from Send_Returns [OF r3] pa' obtain json3 where
      "buffer c3 = fmupd ''a'' (index (buffer c1) ''a'' @ [json3]) (buffer c1)"
      and "t3 = (BufferSize c1 \<le> map_len (buffer c3))"
      by auto
    then show "\<not> t3"
      using dom1 by (simp add: map_len_def fcard_finsert_if fcard_fempty)
  }
qed

theorem flush_trigger_counts_groups_witness:
  "snd (Send (toy_world 200) (New (toy_world 200) ''tok'' 2 False [])
          (fmupd ''partnerID'' (Str ''a'') fmempty))
     = Returns (None, (New (toy_world 200) ''tok'' 2 False [])
          \<lparr>buffer := fmupd ''a'' [''{}''] fmempty\<rparr>, False) \<and>
   snd (Send (toy_world 200)
          ((New (toy_world 200) ''tok'' 2 False [])\<lparr>buffer := fmupd ''a'' [''{}''] fmempty\<rparr>)
          (fmupd ''partnerID'' (Str ''b'') fmempty))
     = Returns (None, (New (toy_world 200) ''tok'' 2 False [])
          \<lparr>buffer := fmupd ''b'' [''{}''] (fmupd ''a'' [''{}''] fmempty)\<rparr>, True) \<and>
   snd (Send (toy_world 200)
          ((New (toy_world 200) ''tok'' 2 False [])\<lparr>buffer := fmupd ''a'' [''{}''] fmempty\<rparr>)
          (fmupd ''partnerID'' (Str ''a'') fmempty))
     = Returns (None, (New (toy_world 200) ''tok'' 2 False [])
          \<lparr>buffer := fmupd ''a'' [''{}'', ''{}''] (fmupd ''a'' [''{}''] fmempty)\<rparr>, False) \<and>
   Write ((New (toy_world 200) ''tok'' 2 False [])\<lparr>buffer := fmupd ''a'' [''{}''] fmempty\<rparr>)
        ''raw''
     = (3, None, (New (toy_world 200) ''tok'' 2 False [])
          \<lparr>buffer := fmupd ''notag'' [''raw''] (fmupd ''a'' [''{}''] fmempty)\<rparr>, True)"
  using flush_trigger_counts_groups [where w = "toy_world 200" and ?w0.0 = "toy_world 200" and ?w1.0 = "toy_world 200"
      and ?w2.0 = "toy_world 200" and token = "''tok''" and minLog = False and tgs = "[]"
      and ma = "fmupd ''partnerID'' (Str ''a'') fmempty"
      and mb = "fmupd ''partnerID'' (Str ''b'') fmempty"
      and ma' = "fmupd ''partnerID'' (Str ''a'') fmempty"
      and ?c1.0 = "(New (toy_world 200) ''tok'' 2 False [])\<lparr>buffer := fmupd ''a'' [''{}''] fmempty\<rparr>"
      and ?t1.0 = False
      and ?c2.0 = "(New (toy_world 200) ''tok'' 2 False [])
          \<lparr>buffer := fmupd ''b'' [''{}''] (fmupd ''a'' [''{}''] fmempty)\<rparr>"
      and ?t2.0 = True
      and ?c3.0 = "(New (toy_world 200) ''tok'' 2 False [])
          \<lparr>buffer := fmupd ''a'' [''{}'', ''{}''] (fmupd ''a'' [''{}''] fmempty)\<rparr>"
      and ?t3.0 = False
      and c = "(New (toy_world 200) ''tok'' 2 False [])\<lparr>buffer := fmupd ''a'' [''{}''] fmempty\<rparr>"
      and ?msg0.0 = "fmupd ''partnerID'' (Str ''b'') fmempty"
      and c' = "(New (toy_world 200) ''tok'' 2 False [])
          \<lparr>buffer := fmupd ''b'' [''{}''] (fmupd ''a'' [''{}''] fmempty)\<rparr>"
      and t = True and b = "''raw''" and n = 3 and e = None
      and c'' = "(New (toy_world 200) ''tok'' 2 False [])
          \<lparr>buffer := fmupd ''notag'' [''raw''] (fmupd ''a'' [''{}''] fmempty)\<rparr>"
      and t' = True]
  by (simp add: toy_defs Write_def)

section \<open>The timestamp\<close>

text \<open>
  Claim C4, as stated, fails: the defaults are merged into the record after the timestamp
  has been settled, and \<open>merge\<close> overwrites, so a \<open>timestamp\<close> among the defaults
  replaces the one the caller supplied.
\<close>

theorem Send_default_timestamp_overwrites:
  "\<not> MinimalLog ((toy_client 100 False)\<lparr>Defaults := fmupd ''timestamp'' (Int64 0) fmempty\<rparr>) \<and>
   fmlookup (fmupd ''timestamp'' (Int64 5) fmempty) ''timestamp'' = Some (Int64 5) \<and>
   fmlookup (fst (Send (toy_world 200)
      ((toy_client 100 False)\<lparr>Defaults := fmupd ''timestamp'' (Int64 0) fmempty\<rparr>)
      (fmupd ''timestamp'' (Int64 5) fmempty))) ''timestamp'' = Some (Int64 0) \<and>
   snd (Send (toy_world 200)
      ((toy_client 100 False)\<lparr>Defaults := fmupd ''timestamp'' (Int64 0) fmempty\<rparr>)
      (fmupd ''timestamp'' (Int64 5) fmempty)) =
     Returns (None, (toy_client 100 False)\<lparr>Defaults := fmupd ''timestamp'' (Int64 0) fmempty,
        buffer := fmupd ''notag'' [''{}''] fmempty\<rparr>, False)"
  by (simp add: toy_defs)


text \<open>
  Claim C4, amended. In non-minimal mode the record handed to the encoder always has a
  \<open>timestamp\<close> key. When the defaults have no \<open>timestamp\<close> key, a timestamp
  supplied by the caller is unchanged and a missing one is set to the current time in
  milliseconds. When the defaults have a \<open>timestamp\<close> key, its value is the one
  encoded. When \<open>Send\<close> returns nil, the blob appended to the buffer is the encoding
  of that record.
\<close>

theorem Send_timestamp:
  assumes "\<not> MinimalLog c"
  shows "''timestamp'' |\<in>| fmdom (fst (Send w c msg0)) \<and>
    (''timestamp'' |\<notin>| fmdom (Defaults c) \<longrightarrow> fmlookup msg0 ''timestamp'' = Some v \<longrightarrow>
       fmlookup (fst (Send w c msg0)) ''timestamp'' = Some v) \<and>
    (''timestamp'' |\<notin>| fmdom (Defaults c) \<longrightarrow> fmlookup msg0 ''timestamp'' = None \<longrightarrow>
       fmlookup (fst (Send w c msg0)) ''timestamp'' = Some (Int64 (UnixNano w sdiv 1000000))) \<and>
    (fmlookup (Defaults c) ''timestamp'' = Some d \<longrightarrow>
       fmlookup (fst (Send w c msg0)) ''timestamp'' = Some d) \<and>
    (\<forall>c' t. snd (Send w c msg0) = Returns (None, c', t) \<longrightarrow>
          (\<exists>g json. Marshal w (fst (Send w c msg0)) = Inr json \<and>
             buffer c' = fmupd g (index (buffer c) g @ [json]) (buffer c)))"
proof -
  have rec: "fst (Send w c msg0) =
      (if ''timestamp'' |\<in>| fmdom msg0 then msg0
       else fmupd ''timestamp'' (Int64 (UnixNano w sdiv 1000000)) msg0) ++\<^sub>f Defaults c"
    using assms by (simp add: Send_record)
  have queued: "\<exists>g json. Marshal w (fst (Send w c msg0)) = Inr json \<and>
             buffer c' = fmupd g (index (buffer c) g @ [json]) (buffer c)"
    if "snd (Send w c msg0) = Returns (None, c', t)" for c' t
    using Send_Returns [OF that] by auto
  have "''timestamp'' |\<in>| fmdom (fst (Send w c msg0))"
    by (simp add: rec)
  moreover have "fmlookup (fst (Send w c msg0)) ''timestamp'' = Some v"
    if "''timestamp'' |\<notin>| fmdom (Defaults c)" "fmlookup msg0 ''timestamp'' = Some v"
    using that by (simp add: rec fmdomI)
  moreover have "fmlookup (fst (Send w c msg0)) ''timestamp'' = Some (Int64 (UnixNano w sdiv 1000000))"
    if "''timestamp'' |\<notin>| fmdom (Defaults c)" "fmlookup msg0 ''timestamp'' = None"
    using that by (simp add: rec fmdom_notI)
  moreover have "fmlookup (fst (Send w c msg0)) ''timestamp'' = Some d"
    if "fmlookup (Defaults c) ''timestamp'' = Some d"
    using that by (simp add: rec fmdomI)
  ultimately show ?thesis using queued by blast
qed


theorem Send_timestamp_witness:
  "\<not> MinimalLog (toy_client 100 False) \<and>
   ''timestamp'' |\<notin>| fmdom (Defaults (toy_client 100 False)) \<and>
   fmlookup (fmupd ''timestamp'' (Int64 5) fmempty) ''timestamp'' = Some (Int64 5) \<and>
   fmlookup (fst (Send (toy_world 200) (toy_client 100 False)
      (fmupd ''timestamp'' (Int64 5) fmempty))) ''timestamp'' = Some (Int64 5) \<and>
   fmlookup (fst (Send (toy_world 200) (toy_client 100 False)
      (fmupd ''component'' (Str ''db'') fmempty))) ''timestamp'' = Some (Int64 1700000000123) \<and>
   snd (Send (toy_world 200) (toy_client 100 False) (fmupd ''timestamp'' (Int64 5) fmempty)) =
     Returns (None, (toy_client 100 False)\<lparr>buffer := fmupd ''notag'' [''{}''] fmempty\<rparr>, False)"
  using Send_timestamp [of "toy_client 100 False" "toy_world 200" "fmupd ''timestamp'' (Int64 5) fmempty"
      "Int64 5"]
  by (simp add: toy_defs)


section \<open>Severity wrappers\<close>

text \<open>
  Claim C7. A severity wrapper called on a client whose minimum level is numerically
  above the wrapper's severity returns nil, leaves the client (its buffer and its writer)
  exactly as it was, and starts no flush. This holds for each of the eight wrappers.
\<close>

theorem wrapper_below_Level_is_noop:
  "(Level c > DEBUG \<longrightarrow> Debug w c t props = Returns (None, c, False)) \<and>
   (Level c > INFO \<longrightarrow> Info w c t props = Returns (None, c, False)) \<and>
   (Level c > NOTICE \<longrightarrow> Notice w c t props = Returns (None, c, False)) \<and>
   (Level c > WARNING \<longrightarrow> Warn w c t props = Returns (None, c, False)) \<and>
   (Level c > ERROR \<longrightarrow> Error w c t props = Returns (None, c, False)) \<and>
   (Level c > CRITICAL \<longrightarrow> Critical w c t props = Returns (None, c, False)) \<and>
   (Level c > ALERT \<longrightarrow> Alert w c t props = Returns (None, c, False)) \<and>
   (Level c > EMERGENCY \<longrightarrow> Emergency w c t props = Returns (None, c, False))"
  by (simp add: Debug_def Info_def Notice_def Warn_def Error_def Critical_def Alert_def
      Emergency_def)

text \<open>
  The example of the specification: with the minimum level set to \<open>ERROR\<close>, the info
  wrapper queues nothing.
\<close>

theorem wrapper_below_Level_is_noop_witness:
  "Level ((toy_client 100 False)\<lparr>Level := ERROR\<rparr>) > INFO \<and>
   Info (toy_world 200) ((toy_client 100 False)\<lparr>Level := ERROR\<rparr>) ''db'' [] =
     Returns (None, (toy_client 100 False)\<lparr>Level := ERROR\<rparr>, False) \<and>
   buffer ((toy_client 100 False)\<lparr>Level := ERROR\<rparr>) = fmempty"
  using wrapper_below_Level_is_noop
    [of "(toy_client 100 False)\<lparr>Level := ERROR\<rparr>" "toy_world 200" "''db''" "[]"]
  by (simp add: toy_client_def New_def Tag_def ERROR_def INFO_def Let_def toy_world_def)

section \<open>Minimal mode\<close>

text \<open>
  Claim C8. In minimal mode the record handed to the encoder has none of the keys
  \<open>filename\<close>, \<open>func\<close>, \<open>hostname\<close>, \<open>line\<close>, and every other key is exactly as in
  the input record: nothing is added, so no timestamp and no default is merged in. When
  \<open>Send\<close> returns nil, the blob appended to a group of the buffer is the encoding of
  that record.
\<close>

theorem Send_minimal_strips_metadata:
  assumes "MinimalLog c"
  shows "''filename'' |\<notin>| fmdom (fst (Send w c msg0)) \<and> ''func'' |\<notin>| fmdom (fst (Send w c msg0))
    \<and> ''hostname'' |\<notin>| fmdom (fst (Send w c msg0)) \<and> ''line'' |\<notin>| fmdom (fst (Send w c msg0))
    \<and> (\<forall>k. k \<notin> {''filename'', ''func'', ''hostname'', ''line''} \<longrightarrow>
          fmlookup (fst (Send w c msg0)) k = fmlookup msg0 k)
    \<and> (\<forall>c' t. snd (Send w c msg0) = Returns (None, c', t) \<longrightarrow>
          (\<exists>g json. Marshal w (fst (Send w c msg0)) = Inr json \<and>
             buffer c' = fmupd g (index (buffer c) g @ [json]) (buffer c)))"
proof -
  have rec: "fst (Send w c msg0) =
      fmdrop ''line'' (fmdrop ''hostname'' (fmdrop ''func'' (fmdrop ''filename'' msg0)))"
    using assms by (simp add: Send_record)
  have queued: "\<exists>g json. Marshal w (fst (Send w c msg0)) = Inr json \<and>
             buffer c' = fmupd g (index (buffer c) g @ [json]) (buffer c)"
    if "snd (Send w c msg0) = Returns (None, c', t)" for c' t
    using Send_Returns [OF that] by auto
  show ?thesis
    using queued by (simp add: rec)
qed

theorem Send_minimal_strips_metadata_witness:
  "MinimalLog (toy_client 100 True) \<and>
   ''hostname'' |\<notin>| fmdom (fst (Send (toy_world 200) (toy_client 100 True)
        (fmupd ''hostname'' (Str ''h'') (fmupd ''component'' (Str ''db'') fmempty)))) \<and>
   fmlookup (fst (Send (toy_world 200) (toy_client 100 True)
        (fmupd ''hostname'' (Str ''h'') (fmupd ''component'' (Str ''db'') fmempty))))
      ''timestamp'' = None \<and>
   snd (Send (toy_world 200) (toy_client 100 True)
        (fmupd ''hostname'' (Str ''h'') (fmupd ''component'' (Str ''db'') fmempty)))
      = Returns (None, (toy_client 100 True)\<lparr>buffer := fmupd ''notag'' [''{db}''] fmempty\<rparr>,
          False)"
  using Send_minimal_strips_metadata [of "toy_client 100 True" "toy_world 200"
      "fmupd ''hostname'' (Str ''h'') (fmupd ''component'' (Str ''db'') fmempty)"]
  by (simp add: toy_defs)

section \<open>The type assertion on \<open>partnerID\<close>\<close>

text \<open>
  Claim C10, as stated, fails: in non-minimal mode the defaults are merged into the
  record before \<open>partnerID\<close> is read, so a default \<open>partnerID\<close> that is a string
  replaces the record's non-string value and \<open>Send\<close> returns nil, queueing the record
  under the default's group.
\<close>

theorem Send_default_partnerID_no_panic:
  "fmlookup (fmupd ''partnerID'' (Int64 5) fmempty) ''partnerID'' = Some (Int64 5) \<and>
   snd (Send (toy_world 200)
          ((toy_client 100 False)\<lparr>Defaults := fmupd ''partnerID'' (Str ''d'') fmempty\<rparr>)
          (fmupd ''partnerID'' (Int64 5) fmempty))
     = Returns (None,
          (toy_client 100 False)\<lparr>Defaults := fmupd ''partnerID'' (Str ''d'') fmempty,
             buffer := fmupd ''d'' [''{}''] fmempty\<rparr>, False)"
  by (simp add: toy_defs)

text \<open>
  Claim C10, amended. For a client in minimal mode, or whose defaults have no
  \<open>partnerID\<close> key, \<open>Send\<close> panics on every record whose \<open>partnerID\<close> is
  present and not a string. In general the type assertion of line 108 reads the record
  after the stripping of minimal mode, or after the timestamp and the defaults have been
  merged in: \<open>Send\<close> panics whenever that record holds a \<open>partnerID\<close> that is not a
  string.
\<close>

theorem Send_panics_on_non_string_partnerID:
  "(fmlookup (fst (Send w c msg0)) ''partnerID'' = Some u \<longrightarrow> (\<forall>s. u \<noteq> Str s) \<longrightarrow>
      snd (Send w c msg0) = Panics) \<and>
   ((MinimalLog c \<or> ''partnerID'' |\<notin>| fmdom (Defaults c)) \<longrightarrow>
      fmlookup msg0 ''partnerID'' = Some v \<longrightarrow> (\<forall>s. v \<noteq> Str s) \<longrightarrow>
      snd (Send w c msg0) = Panics)"
  using Send_Panics [of w c msg0] Send_partnerID [of c w msg0] by auto

theorem Send_panics_on_non_string_partnerID_witness:
  "(MinimalLog (toy_client 100 False) \<or>
      ''partnerID'' |\<notin>| fmdom (Defaults (toy_client 100 False))) \<and>
   fmlookup (fmupd ''partnerID'' (Int64 5) fmempty) ''partnerID'' = Some (Int64 5) \<and>
   fmlookup (fst (Send (toy_world 200) (toy_client 100 False)
      (fmupd ''partnerID'' (Int64 5) fmempty))) ''partnerID'' = Some (Int64 5) \<and>
   (\<forall>s. Int64 5 \<noteq> Str s) \<and>
   snd (Send (toy_world 200) (toy_client 100 False) (fmupd ''partnerID'' (Int64 5) fmempty))
     = Panics"
  using Send_panics_on_non_string_partnerID
    [where w = "toy_world 200" and c = "toy_client 100 False"
       and ?msg0.0 = "fmupd ''partnerID'' (Int64 5) fmempty" and u = "Int64 5" and v = "Int64 5"]
  by (simp add: toy_client_def New_def Tag_def toy_world_def Let_def Send_record merge_def)

section \<open>Routing by \<open>partnerID\<close> and the tag header\<close>

text \<open>
  Claim C6, as stated, fails in two places. In non-minimal mode the defaults are merged
  into the record before \<open>partnerID\<close> is read, so with a default \<open>partnerID\<close> a
  record that has none is queued under the default's group, not under \<open>notag\<close>. And a
  record whose \<open>partnerID\<close> is the string \<open>notag\<close> is queued under the sentinel
  group, whose flush adds no tag header.
\<close>

theorem routing_default_partnerID_and_notag:
  "fmlookup (fmupd ''component'' (Str ''db'') fmempty) ''partnerID'' = None \<and>
   snd (Send (toy_world 200)
          ((toy_client 100 False)\<lparr>Defaults := fmupd ''partnerID'' (Str ''d'') fmempty\<rparr>)
          (fmupd ''component'' (Str ''db'') fmempty))
     = Returns (None,
          (toy_client 100 False)\<lparr>Defaults := fmupd ''partnerID'' (Str ''d'') fmempty,
             buffer := fmupd ''d'' [''{db}''] fmempty\<rparr>, False) \<and>
   snd (Send (toy_world 200) (toy_client 100 False) (fmupd ''partnerID'' (Str ''notag'') fmempty))
     = Returns (None, (toy_client 100 False)\<lparr>buffer := fmupd ''notag'' [''{}''] fmempty\<rparr>,
         False) \<and>
   length (snd (snd (Flush (toy_world 200) [''notag'']
      ((toy_client 100 False)\<lparr>buffer := fmupd ''notag'' [''{}''] fmempty\<rparr>)))) = 1 \<and>
   Header_Values (hd (snd (snd (Flush (toy_world 200) [''notag'']
      ((toy_client 100 False)\<lparr>buffer := fmupd ''notag'' [''{}''] fmempty\<rparr>)))))
      ''X-Loggly-Tag'' = []"
  by (simp add: toy_defs flush_defs)

text \<open>
  Claim C6, amended. For a client in minimal mode or whose defaults have no
  \<open>partnerID\<close> key, a record without \<open>partnerID\<close> that \<open>Send\<close> accepts is
  appended to group \<open>notag\<close>, and a record with the string \<open>x\<close> as \<open>partnerID\<close>
  is appended to group \<open>x\<close>. Every request a flush pass hands to the HTTP client
  carries the joined queue of one non-empty group \<open>k\<close>, with the tag header \<open>k\<close> when
  \<open>k\<close> is not \<open>notag\<close> and with no tag header when it is. When the request for
  the client's endpoint can be built and no request of the pass fails or is answered
  with a status of 400 or more, every non-empty group gets such a request.
\<close>

theorem routing_and_tag_header:
  "((MinimalLog c \<or> ''partnerID'' |\<notin>| fmdom (Defaults c)) \<longrightarrow>
      snd (Send w c msg0) = Returns (None, c', t) \<longrightarrow>
        (fmlookup msg0 ''partnerID'' = None \<longrightarrow>
           (\<exists>json. Marshal w (fst (Send w c msg0)) = Inr json \<and>
              buffer c' = fmupd ''notag'' (index (buffer c) ''notag'' @ [json]) (buffer c))) \<and>
        (fmlookup msg0 ''partnerID'' = Some (Str x) \<longrightarrow>
           (\<exists>json. Marshal w (fst (Send w c msg0)) = Inr json \<and>
              buffer c' = fmupd x (index (buffer c) x @ [json]) (buffer c)))) \<and>
   (range_order d ks \<longrightarrow> Flush w' ks d = (e, d', sent) \<longrightarrow>
      (\<forall>req \<in> set sent. \<exists>k. k |\<in>| fmdom (buffer d) \<and> index (buffer d) k \<noteq> [] \<and>
         Body req = Join (index (buffer d) k) nl \<and>
         Header_Values req ''X-Loggly-Tag'' = (if k = ''notag'' then [] else [k]))) \<and>
   (range_order d ks \<longrightarrow> Flush w' ks d = (e, d', sent) \<longrightarrow>
      NewRequest_err w' ''POST'' (Endpoint d) = None \<longrightarrow>
      (\<forall>req \<in> set sent. \<exists>res. Do w' req = Inr res \<and> StatusCode res < 400) \<longrightarrow>
      (\<forall>k. index (buffer d) k \<noteq> [] \<longrightarrow>
         (\<exists>req \<in> set sent.
            Body req = Join (index (buffer d) k) nl \<and>
            Header_Values req ''X-Loggly-Tag'' = (if k = ''notag'' then [] else [k]))))"
proof (intro conjI impI allI)
  assume cfg: "MinimalLog c \<or> ''partnerID'' |\<notin>| fmdom (Defaults c)"
    and r: "snd (Send w c msg0) = Returns (None, c', t)"
  from Send_Returns [OF r] obtain g json where
    g: "fmlookup (fst (Send w c msg0)) ''partnerID'' = Some (Str g) \<or>
        fmlookup (fst (Send w c msg0)) ''partnerID'' = None \<and> g = ''notag''"
    and j: "Marshal w (fst (Send w c msg0)) = Inr json"
    and c': "c' = c\<lparr>Writer := map_option (\<lambda>out. out @ json @ [CHR 0x0A]) (Writer c),
             buffer := fmupd g (index (buffer c) g @ [json]) (buffer c)\<rparr>"
    by blast
  note p = Send_partnerID [OF cfg, of w msg0]
  {
    assume "fmlookup msg0 ''partnerID'' = None"
    with g p have "g = ''notag''" by simp
    with j c' show "\<exists>json. Marshal w (fst (Send w c msg0)) = Inr json \<and>
              buffer c' = fmupd ''notag'' (index (buffer c) ''notag'' @ [json]) (buffer c)"
      by simp
  }
  {
    assume "fmlookup msg0 ''partnerID'' = Some (Str x)"
    with g p have "g = x" by simp
    with j c' show "\<exists>json. Marshal w (fst (Send w c msg0)) = Inr json \<and>
              buffer c' = fmupd x (index (buffer c) x @ [json]) (buffer c)"
      by simp
  }
next
  assume ro: "range_order d ks" and f: "Flush w' ks d = (e, d', sent)"
  from ro have dist: "distinct ks" by (simp add: range_order_def)
  from f have "flush_keys w' ks d [] = (e, d', sent)" by (simp add: Flush_def)
  from flush_keys_sent [OF this dist]
  have all: "\<forall>req \<in> set sent. \<exists>k \<in> set ks. index (buffer d) k \<noteq> [] \<and>
          req = add_headers k (Join (index (buffer d) k) nl)
                  \<lparr>Method = ''POST'', URL = Endpoint d, Header = [],
                   Body = Join (index (buffer d) k) nl\<rparr>"
    by simp
  show "\<forall>req \<in> set sent. \<exists>k. k |\<in>| fmdom (buffer d) \<and> index (buffer d) k \<noteq> [] \<and>
         Body req = Join (index (buffer d) k) nl \<and>
         Header_Values req ''X-Loggly-Tag'' = (if k = ''notag'' then [] else [k])"
  proof
    fix req assume "req \<in> set sent"
    with all obtain k where k: "index (buffer d) k \<noteq> []"
      "req = add_headers k (Join (index (buffer d) k) nl)
                  \<lparr>Method = ''POST'', URL = Endpoint d, Header = [],
                   Body = Join (index (buffer d) k) nl\<rparr>" by blast
    have "Body req = Join (index (buffer d) k) nl"
      by (simp add: k(2) add_headers_Body)
    moreover have "Header_Values req ''X-Loggly-Tag'' = (if k = ''notag'' then [] else [k])"
      unfolding k(2) by (rule add_headers_tag) simp
    ultimately show "\<exists>k. k |\<in>| fmdom (buffer d) \<and> index (buffer d) k \<noteq> [] \<and>
         Body req = Join (index (buffer d) k) nl \<and>
         Header_Values req ''X-Loggly-Tag'' = (if k = ''notag'' then [] else [k])"
      using k(1) index_nonempty_dom by blast
  qed
next
  fix k
  assume ro: "range_order d ks" and f: "Flush w' ks d = (e, d', sent)"
    and new: "NewRequest_err w' ''POST'' (Endpoint d) = None"
    and ok: "\<forall>req \<in> set sent. \<exists>res. Do w' req = Inr res \<and> StatusCode res < 400"
    and ne: "index (buffer d) k \<noteq> []"
  let ?req = "add_headers k (Join (index (buffer d) k) nl)
                  \<lparr>Method = ''POST'', URL = Endpoint d, Header = [],
                   Body = Join (index (buffer d) k) nl\<rparr>"
  from ro have dist: "distinct ks" and dom: "fset_of_list ks = fmdom (buffer d)"
    by (simp_all add: range_order_def)
  from f have fk: "flush_keys w' ks d [] = (e, d', sent)" by (simp add: Flush_def)
  from ne have "k |\<in>| fmdom (buffer d)" by (rule index_nonempty_dom)
  with dom have "k \<in> set ks" by (metis fset_of_list_elem)
  with ne have "?req \<in> set sent"
    unfolding flush_keys_complete [OF new fk dist ok] by simp
  moreover have "Body ?req = Join (index (buffer d) k) nl"
    by (simp add: add_headers_Body)
  moreover have "Header_Values ?req ''X-Loggly-Tag'' = (if k = ''notag'' then [] else [k])"
    by (rule add_headers_tag) simp
  ultimately show "\<exists>req \<in> set sent.
            Body req = Join (index (buffer d) k) nl \<and>
            Header_Values req ''X-Loggly-Tag'' = (if k = ''notag'' then [] else [k])"
    by blast
qed

theorem routing_and_tag_header_witness:
  "(MinimalLog (toy_client 100 False) \<or>
      ''partnerID'' |\<notin>| fmdom (Defaults (toy_client 100 False))) \<and>
   fmlookup (fmupd ''partnerID'' (Str ''x'')
        (fmupd ''component'' (Str ''checkout-service.payments.eu-west1'') fmempty)) ''partnerID'' = Some (Str ''x'') \<and>
   snd (Send (toy_world 200) (toy_client 100 False) (fmupd ''partnerID'' (Str ''x'')
        (fmupd ''component'' (Str ''checkout-service.payments.eu-west1'') fmempty)))
     = Returns (None, ((toy_client 100 False)\<lparr>buffer := fmupd ''x'' [''{checkout-service.payments.eu-west1}''] fmempty\<rparr>), False) \<and>
   range_order ((toy_client 100 False)\<lparr>buffer := fmupd ''x'' [''{checkout-service.payments.eu-west1}''] fmempty\<rparr>) [''x''] \<and>
   Flush (toy_world 200) [''x''] ((toy_client 100 False)\<lparr>buffer := fmupd ''x'' [''{checkout-service.payments.eu-west1}''] fmempty\<rparr>) = (None, ((toy_client 100 False)\<lparr>buffer := fmupd ''x'' []
        (fmupd ''x'' [''{checkout-service.payments.eu-west1}''] fmempty)\<rparr>), [\<lparr>Method = ''POST'', URL = ''https://logs-01.loggly.com/bulk/tok'',
        Header = [(''User-Agent'', ''go-loggly (version: 0.4.3)''),
                  (''Content-Type'', ''text/plain''), (''Content-Length'', ''$''),
                  (''X-Loggly-Tag'', ''x'')],
        Body = ''{checkout-service.payments.eu-west1}''\<rparr>]) \<and>
   NewRequest_err (toy_world 200) ''POST'' (Endpoint ((toy_client 100 False)\<lparr>buffer := fmupd ''x'' [''{checkout-service.payments.eu-west1}''] fmempty\<rparr>)) = None \<and>
   Do (toy_world 200) \<lparr>Method = ''POST'', URL = ''https://logs-01.loggly.com/bulk/tok'',
        Header = [(''User-Agent'', ''go-loggly (version: 0.4.3)''),
                  (''Content-Type'', ''text/plain''), (''Content-Length'', ''$''),
                  (''X-Loggly-Tag'', ''x'')],
        Body = ''{checkout-service.payments.eu-west1}''\<rparr> = Inr \<lparr>StatusCode = 200, RespBody = []\<rparr> \<and>
   (200 :: int) < 400 \<and>
   index (buffer ((toy_client 100 False)\<lparr>buffer := fmupd ''x'' [''{checkout-service.payments.eu-west1}''] fmempty\<rparr>)) ''x'' \<noteq> [] \<and>
   Body \<lparr>Method = ''POST'', URL = ''https://logs-01.loggly.com/bulk/tok'',
        Header = [(''User-Agent'', ''go-loggly (version: 0.4.3)''),
                  (''Content-Type'', ''text/plain''), (''Content-Length'', ''$''),
                  (''X-Loggly-Tag'', ''x'')],
        Body = ''{checkout-service.payments.eu-west1}''\<rparr> = ''{checkout-service.payments.eu-west1}'' \<and>
   Header_Values \<lparr>Method = ''POST'', URL = ''https://logs-01.loggly.com/bulk/tok'',
        Header = [(''User-Agent'', ''go-loggly (version: 0.4.3)''),
                  (''Content-Type'', ''text/plain''), (''Content-Length'', ''$''),
                  (''X-Loggly-Tag'', ''x'')],
        Body = ''{checkout-service.payments.eu-west1}''\<rparr> ''X-Loggly-Tag'' = [''x'']"
proof -
  let ?c = "toy_client 100 False"
  let ?m = "(fmupd ''partnerID'' (Str ''x'')
        (fmupd ''component'' (Str ''checkout-service.payments.eu-west1'') fmempty))"
  let ?d = "((toy_client 100 False)\<lparr>buffer := fmupd ''x'' [''{checkout-service.payments.eu-west1}''] fmempty\<rparr>)"
  let ?d' = "((toy_client 100 False)\<lparr>buffer := fmupd ''x'' []
        (fmupd ''x'' [''{checkout-service.payments.eu-west1}''] fmempty)\<rparr>)"
  let ?req = "\<lparr>Method = ''POST'', URL = ''https://logs-01.loggly.com/bulk/tok'',
        Header = [(''User-Agent'', ''go-loggly (version: 0.4.3)''),
                  (''Content-Type'', ''text/plain''), (''Content-Length'', ''$''),
                  (''X-Loggly-Tag'', ''x'')],
        Body = ''{checkout-service.payments.eu-west1}''\<rparr>"
  have cfg: "MinimalLog ?c \<or> ''partnerID'' |\<notin>| fmdom (Defaults ?c)"
    by (simp add: toy_defs)
  have look: "fmlookup ?m ''partnerID'' = Some (Str ''x'')"
    by simp
  have queued: "snd (Send (toy_world 200) ?c ?m) = Returns (None, ?d, False)"
    by (simp add: toy_defs)
  have ro: "range_order ?d [''x'']"
    by (simp add: range_order_def)
  have fl: "Flush (toy_world 200) [''x''] ?d = (None, ?d', [?req])"
    by (simp add: toy_defs flush_defs api_def)
  have new: "NewRequest_err (toy_world 200) ''POST'' (Endpoint ?d) = None"
    by (simp add: toy_world_def)
  have resp: "Do (toy_world 200) ?req = Inr \<lparr>StatusCode = 200, RespBody = []\<rparr>"
    by (simp add: toy_world_def)
  then have ok: "\<forall>req \<in> set [?req]. \<exists>res. Do (toy_world 200) req = Inr res \<and> StatusCode res < 400"
    by simp
  have ne: "index (buffer ?d) ''x'' \<noteq> []"
    by (simp add: index_def)
  have body: "Join (index (buffer ?d) ''x'') nl = ''{checkout-service.payments.eu-west1}''"
    by (simp add: index_def)
  from routing_and_tag_header [where d = ?d and ks = "[''x'']" and w' = "toy_world 200"
      and e = None and d' = ?d' and sent = "[?req]"] ro fl new ok ne
  have "\<exists>req \<in> set [?req].
      Body req = Join (index (buffer ?d) ''x'') nl \<and>
      Header_Values req ''X-Loggly-Tag'' = (if ''x'' = ''notag'' then [] else [''x''])"
    by blast
  then have "Body ?req = ''{checkout-service.payments.eu-west1}'' \<and> Header_Values ?req ''X-Loggly-Tag'' = [''x'']"
    unfolding body by simp
  with cfg look queued ro fl new resp ne show ?thesis by simp
qed

section \<open>The group keys over the lifetime of a client\<close>

text \<open>
  Claim C9, as stated, fails in its last part: \<open>Send\<close> returns an encoding error
  before it reaches the append and the threshold test, so a submission of a record that
  cannot be encoded starts no flush, also after the threshold has been reached.
\<close>

theorem Send_encode_error_starts_no_flush:
  "BufferSize ((toy_client 1 True)\<lparr>buffer := fmupd ''notag'' [''raw''] fmempty\<rparr>)
     \<le> map_len (buffer ((toy_client 1 True)\<lparr>buffer := fmupd ''notag'' [''raw''] fmempty\<rparr>)) \<and>
   snd (Send (toy_world 200)
          ((toy_client 1 True)\<lparr>buffer := fmupd ''notag'' [''raw''] fmempty\<rparr>)
          (fmupd ''ch'' (Other 0) fmempty))
     = Returns (Some (Err ''json: unsupported type''),
          (toy_client 1 True)\<lparr>buffer := fmupd ''notag'' [''raw''] fmempty\<rparr>, False)"
  by (simp add: toy_defs)

text \<open>
  Claim C9, amended. Over any sequence of calls the set of group keys of the buffer only
  grows and the configured buffer size stays as it is: a flush empties queues and removes
  no key, so the number of distinct groups never decreases. Once that number has reached
  the buffer size, every later submission that reaches the append (a \<open>Send\<close> that
  returns nil, and every \<open>Write\<close>) starts a flush.
\<close>

theorem group_keys_only_grow:
  "fmdom (buffer c) |\<subseteq>| fmdom (buffer (run xs c)) \<and>
   map_len (buffer c) \<le> map_len (buffer (run xs c)) \<and>
   fmdom (buffer (perform w (Call_Flush ks) c)) = fmdom (buffer c) \<and>
   (BufferSize c \<le> map_len (buffer c) \<longrightarrow>
      (\<forall>w' msg0 c' t. snd (Send w' (run xs c) msg0) = Returns (None, c', t) \<longrightarrow> t) \<and>
      (\<forall>b n e c' t. Write (run xs c) b = (n, e, c', t) \<longrightarrow> t))"
proof (intro conjI impI allI)
  show mono: "fmdom (buffer c) |\<subseteq>| fmdom (buffer (run xs c))"
    using run_keeps by blast
  then show len: "map_len (buffer c) \<le> map_len (buffer (run xs c))"
    by (rule map_len_mono)
  obtain e c' sent where fk: "flush_keys w ks c [] = (e, c', sent)"
    by (cases "flush_keys w ks c []") auto
  from flush_keys_buffer [OF fk] fk
  show "fmdom (buffer (perform w (Call_Flush ks) c)) = fmdom (buffer c)"
    by (simp add: Flush_def)
  {
    fix w' msg0 c' t
    assume reached: "BufferSize c \<le> map_len (buffer c)"
      and r: "snd (Send w' (run xs c) msg0) = Returns (None, c', t)"
    from Send_Returns [OF r] obtain g json where
      t: "t = (BufferSize (run xs c) \<le> map_len (buffer c'))"
      and c': "c' = (run xs c)\<lparr>Writer := map_option (\<lambda>out. out @ json @ [CHR 0x0A])
                 (Writer (run xs c)),
               buffer := fmupd g (index (buffer (run xs c)) g @ [json]) (buffer (run xs c))\<rparr>"
      by blast
    have "fmdom (buffer (run xs c)) |\<subseteq>| fmdom (buffer c')"
      by (auto simp: c')
    then have "map_len (buffer (run xs c)) \<le> map_len (buffer c')"
      by (rule map_len_mono)
    with reached len run_keeps [of c xs] t show t by simp
  }
  {
    fix b n e c' t
    assume reached: "BufferSize c \<le> map_len (buffer c)"
      and r: "Write (run xs c) b = (n, e, c', t)"
    from r have t: "t = (BufferSize (run xs c) \<le> map_len (buffer c'))"
      and "fmdom (buffer (run xs c)) |\<subseteq>| fmdom (buffer c')"
      by (auto simp: Write_def Let_def)
    then have "map_len (buffer (run xs c)) \<le> map_len (buffer c')"
      using map_len_mono by blast
    with reached len run_keeps [of c xs] t show t by simp
  }
qed

theorem group_keys_only_grow_witness:
  "BufferSize ((toy_client 1 True)\<lparr>buffer := fmupd ''notag'' [''raw''] fmempty\<rparr>)
     \<le> map_len (buffer ((toy_client 1 True)\<lparr>buffer := fmupd ''notag'' [''raw''] fmempty\<rparr>)) \<and>
   index (buffer (run [(toy_world 500, Call_Flush [''notag''])]
     ((toy_client 1 True)\<lparr>buffer := fmupd ''notag'' [''raw''] fmempty\<rparr>))) ''notag'' = [] \<and>
   ''notag'' |\<in>| fmdom (buffer (run [(toy_world 500, Call_Flush [''notag''])]
     ((toy_client 1 True)\<lparr>buffer := fmupd ''notag'' [''raw''] fmempty\<rparr>))) \<and>
   snd (Send (toy_world 200) (run [(toy_world 500, Call_Flush [''notag''])]
     ((toy_client 1 True)\<lparr>buffer := fmupd ''notag'' [''raw''] fmempty\<rparr>))
     (fmupd ''component'' (Str ''db'') fmempty))
    = Returns (None, (toy_client 1 True)\<lparr>buffer := fmupd ''notag'' [''{db}'']
        (fmupd ''notag'' [] (fmupd ''notag'' [''raw''] fmempty))\<rparr>, True)"
proof -
  let ?c = "(toy_client 1 True)\<lparr>buffer := fmupd ''notag'' [''raw''] fmempty\<rparr>"
  let ?xs = "[(toy_world 500, Call_Flush [''notag''])]"
  have reached: "BufferSize ?c \<le> map_len (buffer ?c)"
    by (simp add: toy_defs)
  have ran: "run ?xs ?c = (toy_client 1 True)\<lparr>buffer :=
      fmupd ''notag'' [] (fmupd ''notag'' [''raw''] fmempty)\<rparr>"
    by (simp add: toy_defs flush_defs)
  have emptied: "index (buffer (run ?xs ?c)) ''notag'' = []"
    "''notag'' |\<in>| fmdom (buffer (run ?xs ?c))"
    unfolding ran by (simp_all add: index_def)
  have full: "snd (Send (toy_world 200) (run ?xs ?c) (fmupd ''component'' (Str ''db'') fmempty))
      = Returns (None, (toy_client 1 True)\<lparr>buffer := fmupd ''notag'' [''{db}'']
        (fmupd ''notag'' [] (fmupd ''notag'' [''raw''] fmempty))\<rparr>, True)"
    unfolding ran by (simp add: toy_defs)
  from group_keys_only_grow [where c = ?c and xs = ?xs] reached
  have trig: "\<forall>w' msg0 c' t.
      snd (Send w' (run ?xs ?c) msg0) = Returns (None, c', t) \<longrightarrow> t"
    by blast
  show ?thesis using reached emptied full trig by blast
qed

section \<open>The status of the response\<close>

text \<open>
  Claim C1 against the code. In every flush pass in which a request handed to the HTTP
  client is answered with a status of 400 or more, \<open>Flush\<close> returns nil: line 279
  returns the variable \<open>err\<close>, which is nil once \<open>client.Do\<close> has succeeded. The
  other half of the claim holds: the request carried the joined queue of a group, and
  that group's queue is empty afterwards.
\<close>

theorem Flush_returns_nil_on_error_status:
  assumes "range_order c ks" and "Flush w ks c = (e, c', sent)" and "req \<in> set sent"
    and "Do w req = Inr res" and "StatusCode res \<ge> 400"
  shows "e = None \<and>
    (\<exists>k. index (buffer c) k \<noteq> [] \<and> Body req = Join (index (buffer c) k) nl \<and>
         index (buffer c') k = [])"
proof -
  from assms(1) have dist: "distinct ks" by (simp add: range_order_def)
  from assms(2) have "flush_keys w ks c [] = (e, c', sent)" by (simp add: Flush_def)
  from flush_keys_status [OF this dist assms(3) _ assms(4,5)]
  obtain k where "e = None" "index (buffer c) k \<noteq> []"
    "req = add_headers k (Join (index (buffer c) k) nl)
              \<lparr>Method = ''POST'', URL = Endpoint c, Header = [],
               Body = Join (index (buffer c) k) nl\<rparr>"
    "index (buffer c') k = []" by auto
  then show ?thesis by (auto simp: add_headers_Body)
qed

text \<open>
  A pass with one request: a record of 36 bytes, so that the \<open>Content-Length\<close> value
  set by line 260 is the one character with code 36, and an endpoint that answers with
  status 500.
\<close>

theorem Flush_returns_nil_on_error_status_witness:
  "range_order ((toy_client 100 False)
      \<lparr>buffer := fmupd ''notag'' [''level=error component=db status=down''] fmempty\<rparr>)
     [''notag''] \<and>
   Flush (toy_world 500) [''notag''] ((toy_client 100 False)
      \<lparr>buffer := fmupd ''notag'' [''level=error component=db status=down''] fmempty\<rparr>)
     = (None,
        (toy_client 100 False)\<lparr>buffer := fmupd ''notag'' []
           (fmupd ''notag'' [''level=error component=db status=down''] fmempty)\<rparr>,
        [\<lparr>Method = ''POST'', URL = ''https://logs-01.loggly.com/bulk/tok'',
          Header = [(''User-Agent'', ''go-loggly (version: 0.4.3)''),
                    (''Content-Type'', ''text/plain''), (''Content-Length'', ''$'')],
          Body = ''level=error component=db status=down''\<rparr>]) \<and>
   Do (toy_world 500)
      \<lparr>Method = ''POST'', URL = ''https://logs-01.loggly.com/bulk/tok'',
          Header = [(''User-Agent'', ''go-loggly (version: 0.4.3)''),
                    (''Content-Type'', ''text/plain''), (''Content-Length'', ''$'')],
          Body = ''level=error component=db status=down''\<rparr>
     = Inr \<lparr>StatusCode = 500, RespBody = []\<rparr> \<and>
   (500 :: int) \<ge> 400 \<and>
   index (buffer ((toy_client 100 False)\<lparr>buffer := fmupd ''notag'' []
           (fmupd ''notag'' [''level=error component=db status=down''] fmempty)\<rparr>))
     ''notag'' = []"
proof -
  let ?c = "(toy_client 100 False)
      \<lparr>buffer := fmupd ''notag'' [''level=error component=db status=down''] fmempty\<rparr>"
  let ?c' = "(toy_client 100 False)\<lparr>buffer := fmupd ''notag'' []
           (fmupd ''notag'' [''level=error component=db status=down''] fmempty)\<rparr>"
  let ?req = "\<lparr>Method = ''POST'', URL = ''https://logs-01.loggly.com/bulk/tok'',
          Header = [(''User-Agent'', ''go-loggly (version: 0.4.3)''),
                    (''Content-Type'', ''text/plain''), (''Content-Length'', ''$'')],
          Body = ''level=error component=db status=down''\<rparr>"
  have ro: "range_order ?c [''notag'']"
    by (simp add: range_order_def)
  have fl: "Flush (toy_world 500) [''notag''] ?c = (None, ?c', [?req])"
    by (simp add: toy_defs flush_defs api_def)
  have resp: "Do (toy_world 500) ?req = Inr \<lparr>StatusCode = 500, RespBody = []\<rparr>"
    by (simp add: toy_world_def)
  have gone: "index (buffer ?c') ''notag'' = []"
    by (simp add: index_def)
  from Flush_returns_nil_on_error_status [OF ro fl _ resp] have "(None :: error option) = None" by simp
  with ro fl resp gone show ?thesis by simp
qed

section \<open>The \<open>Content-Length\<close> header\<close>

text \<open>
  Claim C5 against the code: for the body of seven bytes joined from two records, line
  260 sets the header to \<open>string(7)\<close>, the one-byte string holding the code point 7, and
  not to the decimal numeral \<open>7\<close> of the length.
\<close>

theorem Content_Length_is_rune_not_decimal:
  "Body (hd (snd (snd (Flush (toy_world 200) [''notag'']
     ((toy_client 100 False)\<lparr>buffer := fmupd ''notag'' [''{a}'', ''{b}''] fmempty\<rparr>)))))
     = [CHR ''{'', CHR ''a'', CHR ''}'', CHR 0x0A, CHR ''{'', CHR ''b'', CHR ''}''] \<and>
   Header_Values (hd (snd (snd (Flush (toy_world 200) [''notag'']
     ((toy_client 100 False)\<lparr>buffer := fmupd ''notag'' [''{a}'', ''{b}''] fmempty\<rparr>)))))
     ''Content-Length'' = [[CHR 0x07]] \<and>
   length (Body (hd (snd (snd (Flush (toy_world 200) [''notag'']
     ((toy_client 100 False)\<lparr>buffer := fmupd ''notag'' [''{a}'', ''{b}''] fmempty\<rparr>))))))
     = 7 \<and>
   decimal 7 = ''7''"
  by (simp add: toy_defs flush_defs decimal_7)

section \<open>A producer between the unlock and the clear\<close>

text \<open>
  Claim C2 against the code. In the first schedule a producer appends \<open>b2\<close> after the
  flushing goroutine has joined the queue and released the mutex, and before it executes
  line 248: \<open>b2\<close> is overwritten by the clear and is never posted. In the second
  schedule two flushing goroutines both join the queue before either clears it: \<open>b1\<close>
  is posted twice.
\<close>

theorem unlocked_clear_loses_and_duplicates:
  "execs [Append ''notag'' ''b1'', Flush_Test 1 ''notag'', Flush_Join 1 ''notag'',
          Append ''notag'' ''b2'', Flush_Clear 1 ''notag'']
     \<lparr>queue = fmempty, at = fmempty, posted = []\<rparr>
     = Some \<lparr>queue = fmupd ''notag'' [] (fmupd ''notag'' [''b1'', ''b2'']
                (fmupd ''notag'' [''b1''] fmempty)),
             at = fmdrop 1 (fmupd 1 (Joined ''notag'' ''b1'') (fmupd 1 (Tested ''notag'') fmempty)),
             posted = [''b1'']\<rparr> \<and>
   map_option posted (execs [Append ''notag'' ''b1'', Flush_Test 1 ''notag'', Flush_Test 2 ''notag'',
          Flush_Join 1 ''notag'', Flush_Join 2 ''notag'', Flush_Clear 1 ''notag'',
          Flush_Clear 2 ''notag'']
     \<lparr>queue = fmempty, at = fmempty, posted = []\<rparr>) = Some [''b1'', ''b1'']"
  by (simp add: index_def nl_def)

end
